theory Spec2Isabelle
  imports Complex_Main
begin

section \<open>JavaScript values used by the inventory engine of \<^verbatim>\<open>src/App.js\<close>\<close>

subsection \<open>Numbers\<close>

text \<open>
  A JavaScript number is an IEEE double. The model keeps the special values the code can
  produce (\<^verbatim>\<open>NaN\<close>, \<^verbatim>\<open>Infinity\<close>, \<^verbatim>\<open>-Infinity\<close>) and takes the finite ones as rationals.
  \<open>Inf True\<close> is \<^verbatim>\<open>Infinity\<close>, \<open>Inf False\<close> is \<^verbatim>\<open>-Infinity\<close>.

  An operation on finite numbers overflows as in JavaScript: a result whose magnitude
  reaches \<open>2 ^ 1024 - 2 ^ 970\<close>, the least magnitude that rounds to an infinity, is that
  infinity. Below that bound the result is kept exact: the rounding to 53 significant bits
  and the underflow to zero are not modelled, and neither is the sign of zero (a zero
  divisor counts as \<^verbatim>\<open>+0\<close>). Rounding is monotone and keeps the sign of a result, so what
  is proved below from the order and the sign of results alone is not affected by it.
\<close>

datatype jsnum = Num rat | Inf bool | NaN

definition overflow_bound :: rat where
  "overflow_bound = 2 ^ 1024 - 2 ^ 970"

definition finite_result :: "rat \<Rightarrow> jsnum" where
  "finite_result x = (if overflow_bound \<le> \<bar>x\<bar> then Inf (0 < x) else Num x)"

fun js_mul :: "jsnum \<Rightarrow> jsnum \<Rightarrow> jsnum" where
  "js_mul (Num a) (Num b) = finite_result (a * b)"
| "js_mul (Num a) (Inf s) = (if a = 0 then NaN else Inf ((0 < a) = s))"
| "js_mul (Inf s) (Num b) = (if b = 0 then NaN else Inf ((0 < b) = s))"
| "js_mul (Inf s) (Inf t) = Inf (s = t)"
| "js_mul _ _ = NaN"

fun js_div :: "jsnum \<Rightarrow> jsnum \<Rightarrow> jsnum" where
  "js_div (Num a) (Num b) =
     (if b = 0 then (if a = 0 then NaN else Inf (0 < a)) else finite_result (a / b))"
| "js_div (Num a) (Inf s) = Num 0"
| "js_div (Inf s) (Num b) = Inf ((0 \<le> b) = s)"
| "js_div _ _ = NaN"

fun js_add :: "jsnum \<Rightarrow> jsnum \<Rightarrow> jsnum" where
  "js_add (Num a) (Num b) = finite_result (a + b)"
| "js_add (Num a) (Inf s) = Inf s"
| "js_add (Inf s) (Num b) = Inf s"
| "js_add (Inf s) (Inf t) = (if s = t then Inf s else NaN)"
| "js_add _ _ = NaN"

fun js_sub :: "jsnum \<Rightarrow> jsnum \<Rightarrow> jsnum" where
  "js_sub (Num a) (Num b) = finite_result (a - b)"
| "js_sub (Num a) (Inf s) = Inf (\<not> s)"
| "js_sub (Inf s) (Num b) = Inf s"
| "js_sub (Inf s) (Inf t) = (if s = t then NaN else Inf s)"
| "js_sub _ _ = NaN"

text \<open>The comparisons \<^verbatim>\<open><\<close> and \<^verbatim>\<open><=\<close>: false as soon as one side is \<^verbatim>\<open>NaN\<close>.\<close>

fun js_lt :: "jsnum \<Rightarrow> jsnum \<Rightarrow> bool" where
  "js_lt (Num a) (Num b) = (a < b)"
| "js_lt (Num a) (Inf s) = s"
| "js_lt (Inf s) (Num b) = (\<not> s)"
| "js_lt (Inf s) (Inf t) = (\<not> s \<and> t)"
| "js_lt _ _ = False"

fun js_le :: "jsnum \<Rightarrow> jsnum \<Rightarrow> bool" where
  "js_le (Num a) (Num b) = (a \<le> b)"
| "js_le (Num a) (Inf s) = s"
| "js_le (Inf s) (Num b) = (\<not> s)"
| "js_le (Inf s) (Inf t) = (s \<longrightarrow> t)"
| "js_le _ _ = False"

subsection \<open>Strings\<close>

text \<open>
  A \<open>string\<close> stands for a JavaScript string whose code units are below 256 (a \<open>char\<close> is
  the code unit). \<^verbatim>\<open>String.prototype.toLowerCase\<close> maps \<^verbatim>\<open>A\<close>..\<^verbatim>\<open>Z\<close> and the capital
  letters of the Latin-1 block (U+00C0..U+00DE without the multiplication sign U+00D7) to
  the code unit 32 above and leaves every other code unit below 256 alone.
\<close>

definition toLowerCase_char :: "char \<Rightarrow> char" where
  "toLowerCase_char c =
     (let n = (of_char c :: nat)
      in if (65 \<le> n \<and> n \<le> 90) \<or> (192 \<le> n \<and> n \<le> 222 \<and> n \<noteq> 215)
         then char_of (n + 32) else c)"

definition toLowerCase :: "string \<Rightarrow> string" where
  "toLowerCase s = map toLowerCase_char s"

subsection \<open>Property lookup in the conversion table\<close>

text \<open>
  \<^verbatim>\<open>conversionFactors\<close> is an object literal of three object literals, read with
  \<^verbatim>\<open>conversionFactors.mass[key]\<close>. Such a read follows the prototype chain: a key that is
  not an own property of the inner literal but names a member of \<^verbatim>\<open>Object.prototype\<close> yields
  that member (a function, or the prototype object for \<^verbatim>\<open>__proto__\<close>), not \<^verbatim>\<open>undefined\<close>.
  \<open>JObject\<close> stands for any of these members: truthy, and \<^verbatim>\<open>NaN\<close> when used as a number.
\<close>

datatype jsval = JUndefined | JNumber jsnum | JObject

definition object_prototype_keys :: "string list" where
  "object_prototype_keys =
     [''constructor'', ''__proto__'', ''hasOwnProperty'', ''isPrototypeOf'',
      ''propertyIsEnumerable'', ''toLocaleString'', ''toString'', ''valueOf'',
      ''__defineGetter__'', ''__defineSetter__'', ''__lookupGetter__'', ''__lookupSetter__'']"

text \<open>The own properties of the three inner literals, as written in the source.\<close>

definition own_factors :: "string \<Rightarrow> (string \<times> rat) list" where
  "own_factors category =
     (if category = ''mass'' then [(''g'', 1), (''kg'', 1000)]
      else if category = ''volume'' then [(''ml'', 1), (''lt'', 1000), (''cc'', 1)]
      else if category = ''count'' then [(''unidad'', 1)]
      else [])"

definition conversionFactors :: "string \<Rightarrow> string \<Rightarrow> jsval" where
  "conversionFactors category key =
     (case map_of (own_factors category) key of
        Some f \<Rightarrow> JNumber (Num f)
      | None \<Rightarrow> if key \<in> set object_prototype_keys then JObject else JUndefined)"

fun truthy :: "jsval \<Rightarrow> bool" where
  "truthy JUndefined = False"
| "truthy (JNumber (Num a)) = (a \<noteq> 0)"
| "truthy (JNumber (Inf s)) = True"
| "truthy (JNumber NaN) = False"
| "truthy JObject = True"

fun toNumber :: "jsval \<Rightarrow> jsnum" where
  "toNumber (JNumber n) = n"
| "toNumber JUndefined = NaN"
| "toNumber JObject = NaN"

section \<open>\<^verbatim>\<open>convertUnits\<close>\<close>

text \<open>
  The \<^verbatim>\<open>if\<close>/\<^verbatim>\<open>else if\<close> chain that finds the category of a lowercased unit; the empty
  string is the source's initial value, kept when no table has the key.
\<close>

definition category_of :: "string \<Rightarrow> string" where
  "category_of unit =
     (if truthy (conversionFactors ''mass'' unit) then ''mass''
      else if truthy (conversionFactors ''volume'' unit) then ''volume''
      else if truthy (conversionFactors ''count'' unit) then ''count''
      else '''')"

text \<open>\<open>None\<close> is the source's \<^verbatim>\<open>return null\<close> (after the console warning).\<close>

definition convertUnits :: "jsnum \<Rightarrow> string \<Rightarrow> string \<Rightarrow> jsnum option" where
  "convertUnits value fromUnit toUnit =
     (let standardizedFromUnit = toLowerCase fromUnit;
          standardizedToUnit = toLowerCase toUnit
      in if standardizedFromUnit = standardizedToUnit then Some value
         else
           let fromCategory = category_of standardizedFromUnit;
               toCategory = category_of standardizedToUnit
           in if fromCategory \<noteq> toCategory \<or> fromCategory = '''' then None
              else
                let valueInBase =
                      js_mul value (toNumber (conversionFactors fromCategory standardizedFromUnit));
                    result =
                      js_div valueInBase (toNumber (conversionFactors toCategory standardizedToUnit))
                in Some result)"


section \<open>The documents of the store\<close>

text \<open>
  The Firestore collections \<^verbatim>\<open>inventory\<close>, \<^verbatim>\<open>recipes\<close> and \<^verbatim>\<open>sales_orders\<close>. A collection is
  the list of its documents in snapshot order (\<^verbatim>\<open>snapshot.docs\<close>), each with its document id,
  which is what \<^verbatim>\<open>Array.prototype.find\<close> walks. The \<^verbatim>\<open>createdAt\<close> time stamps are left out:
  no handler below reads them.
\<close>

datatype item_kind = raw_material | finished_good

record item =
  item_id :: string
  item_name :: string
  unit_value :: jsnum
  unit_type :: string
  stock :: jsnum
  item_type :: item_kind

record ingredient =
  ing_name :: string
  ing_quantity :: jsnum
  ing_unit :: string

record recipe =
  recipe_id :: string
  recipe_name :: string
  recipe_type :: string
  ingredients :: "ingredient list"

datatype order_status = Pendiente | Completado

text \<open>\<open>selectedRecipeId\<close> is stored as \<^verbatim>\<open>selectedRecipeId || null\<close>: \<open>None\<close> is \<^verbatim>\<open>null\<close>.\<close>

record sales_order =
  order_id :: string
  customerName :: string
  orderType :: string
  selectedRecipeId :: "string option"
  productDescription :: string
  quantity :: jsnum
  orderDate :: string
  status :: order_status

record firestore =
  inventory :: "item list"
  sales_orders :: "sales_order list"

text \<open>
  \<^verbatim>\<open>updateDoc(ref, {stock: v})\<close> overwrites one field of the document with that id and is
  rejected when there is no such document; the rejection is the exception the handlers
  catch. Failures of the network or of the security rules are not modelled.
\<close>

definition updateDoc_stock :: "item list \<Rightarrow> string \<Rightarrow> jsnum \<Rightarrow> item list option" where
  "updateDoc_stock docs ident v =
     (if ident \<in> set (map item_id docs)
      then Some (map (\<lambda>d. if item_id d = ident then d\<lparr>stock := v\<rparr> else d) docs)
      else None)"

definition updateDoc_status ::
  "sales_order list \<Rightarrow> string \<Rightarrow> order_status \<Rightarrow> sales_order list option" where
  "updateDoc_status docs ident v =
     (if ident \<in> set (map order_id docs)
      then Some (map (\<lambda>d. if order_id d = ident then d\<lparr>status := v\<rparr> else d) docs)
      else None)"

text \<open>
  \<^verbatim>\<open>addDoc\<close> stores a new document under an id that Firestore generates; the id is an
  argument of the model, and the new document is put last.
\<close>

definition addDoc_item :: "item list \<Rightarrow> string \<Rightarrow> item \<Rightarrow> item list" where
  "addDoc_item docs newId d = docs @ [d\<lparr>item_id := newId\<rparr>]"

section \<open>\<^verbatim>\<open>handleConfirmProduction\<close>\<close>

text \<open>
  What a handler shows to the user (\<^verbatim>\<open>showInfoModal\<close>), as a value. The lines of the shortage
  message keep the data that the source formats into text.
\<close>

datatype shortage =
    NotFoundAsRawMaterial string
  | UnitConversionError string
  | InsufficientStock string jsnum jsnum string

datatype outcome =
    NotReady
  | InvalidQuantity
  | Shortage "shortage list"
  | ProductNotFound string
  | InsufficientFinishedGood string jsnum jsnum
  | Cancelled
  | ProductionConfirmed
  | StatusUpdated order_status
  | WriteError

record deduction =
  itemId :: string
  newStock :: jsnum

text \<open>
  The name test of the three \<^verbatim>\<open>inventoryItems.find\<close> calls:
  \<^verbatim>\<open>item.name.toLowerCase() === n.toLowerCase() && item.type === k\<close>.
\<close>

definition find_item :: "item list \<Rightarrow> string \<Rightarrow> item_kind \<Rightarrow> item option" where
  "find_item inventoryItems n k =
     find (\<lambda>item. toLowerCase (item_name item) = toLowerCase n \<and> item_type item = k)
       inventoryItems"

text \<open>
  One turn of the loop over \<^verbatim>\<open>recipe.ingredients\<close>, on the three variables it updates:
  \<^verbatim>\<open>canProduce\<close>, \<^verbatim>\<open>shortageMessages\<close> and \<^verbatim>\<open>deductions\<close>. The two \<^verbatim>\<open>continue\<close> statements
  skip the deduction; a stock below the requirement does not. \<^verbatim>\<open>parseFloat(ing.quantity)\<close>
  returns the stored number.
\<close>

definition check_ingredient ::
  "item list \<Rightarrow> jsnum \<Rightarrow> bool \<times> shortage list \<times> deduction list \<Rightarrow> ingredient
     \<Rightarrow> bool \<times> shortage list \<times> deduction list" where
  "check_ingredient inventoryItems quantityToProduce acc ing =
     (case acc of (canProduce, shortageMessages, deductions) \<Rightarrow>
        let requiredAmountRecipeBase = ing_quantity ing;
            requiredUnitRecipe = ing_unit ing
        in (case find_item inventoryItems (ing_name ing) raw_material of
             None \<Rightarrow>
               (False, shortageMessages @ [NotFoundAsRawMaterial (ing_name ing)], deductions)
           | Some inventoryItem \<Rightarrow>
               (case convertUnits (js_mul requiredAmountRecipeBase quantityToProduce)
                       requiredUnitRecipe (unit_type inventoryItem) of
                  None \<Rightarrow>
                    (False, shortageMessages @ [UnitConversionError (ing_name ing)], deductions)
                | Some requiredAmountConverted \<Rightarrow>
                    let currentStockTotalInBaseUnit =
                          js_mul (stock inventoryItem) (unit_value inventoryItem);
                        short = js_lt currentStockTotalInBaseUnit requiredAmountConverted;
                        newStockForIngredient =
                          js_div (js_sub currentStockTotalInBaseUnit requiredAmountConverted)
                            (unit_value inventoryItem)
                    in (canProduce \<and> \<not> short,
                        if short
                        then shortageMessages @
                          [InsufficientStock (ing_name ing) requiredAmountConverted
                             currentStockTotalInBaseUnit (unit_type inventoryItem)]
                        else shortageMessages,
                        deductions @
                          [\<lparr>itemId = item_id inventoryItem,
                            newStock = newStockForIngredient\<rparr>]))))"

definition check_ingredients ::
  "item list \<Rightarrow> jsnum \<Rightarrow> ingredient list \<Rightarrow> bool \<times> shortage list \<times> deduction list" where
  "check_ingredients inventoryItems quantityToProduce ings =
     foldl (check_ingredient inventoryItems quantityToProduce) (True, [], []) ings"

text \<open>
  The loop of awaited \<^verbatim>\<open>updateDoc\<close> calls in the \<^verbatim>\<open>try\<close> block. A rejected write throws:
  the writes before it stay, the ones after it are not issued. The flag is False then.
\<close>

fun apply_deductions :: "item list \<Rightarrow> deduction list \<Rightarrow> item list \<times> bool" where
  "apply_deductions docs [] = (docs, True)"
| "apply_deductions docs (d # ds) =
     (case updateDoc_stock docs (itemId d) (newStock d) of
        None \<Rightarrow> (docs, False)
      | Some docs' \<Rightarrow> apply_deductions docs' ds)"

text \<open>The \<^verbatim>\<open>try\<close> block: the deductions, then the finished product.\<close>

definition commit_production ::
  "string \<Rightarrow> firestore \<Rightarrow> deduction list \<Rightarrow> item option \<Rightarrow> recipe \<Rightarrow> jsnum
     \<Rightarrow> outcome \<times> firestore" where
  "commit_production newId db deductions finishedProductInInventory recipe quantityToProduce =
     (case apply_deductions (inventory db) deductions of
        (docs, False) \<Rightarrow> (WriteError, db\<lparr>inventory := docs\<rparr>)
      | (docs, True) \<Rightarrow>
          (case finishedProductInInventory of
             Some fp \<Rightarrow>
               (case updateDoc_stock docs (item_id fp) (js_add (stock fp) quantityToProduce) of
                  None \<Rightarrow> (WriteError, db\<lparr>inventory := docs\<rparr>)
                | Some docs' \<Rightarrow> (ProductionConfirmed, db\<lparr>inventory := docs'\<rparr>))
           | None \<Rightarrow>
               (ProductionConfirmed,
                db\<lparr>inventory :=
                     addDoc_item docs newId
                       \<lparr>item_id = newId, item_name = recipe_name recipe, unit_value = Num 1,
                        unit_type = ''unidad'', stock = quantityToProduce,
                        item_type = finished_good\<rparr>\<rparr>)))"

text \<open>
  The handler. \<open>ready\<close> is \<^verbatim>\<open>db && userId\<close>, \<open>inventoryItems\<close> the component's state (the last
  snapshot it received), \<open>confirm\<close> the answer to \<^verbatim>\<open>window.confirm\<close>, \<open>newId\<close> the id that
  \<^verbatim>\<open>addDoc\<close> would give, \<open>db\<close> the store at the time of the writes.
\<close>

definition handleConfirmProduction ::
  "bool \<Rightarrow> item list \<Rightarrow> bool \<Rightarrow> string \<Rightarrow> firestore \<Rightarrow> recipe \<Rightarrow> jsnum
     \<Rightarrow> outcome \<times> firestore" where
  "handleConfirmProduction ready inventoryItems confirm newId db recipe quantityToProduce =
     (if \<not> ready then (NotReady, db)
      else if js_le quantityToProduce (Num 0) then (InvalidQuantity, db)
      else
        case check_ingredients inventoryItems quantityToProduce (ingredients recipe) of
          (canProduce, shortageMessages, deductions) \<Rightarrow>
            let finishedProductInInventory =
                  find_item inventoryItems (recipe_name recipe) finished_good
            in if \<not> canProduce then (Shortage shortageMessages, db)
               else if \<not> confirm then (Cancelled, db)
               else commit_production newId db deductions finishedProductInInventory
                      recipe quantityToProduce)"

section \<open>\<^verbatim>\<open>handleChangeOrderStatus\<close>\<close>

text \<open>
  \<open>recipes\<close> and \<open>inventoryItems\<close> are the component's state. The status is one of the two
  strings the application writes. \<^verbatim>\<open>if (selectedRecipeId)\<close> is false for \<^verbatim>\<open>null\<close> and for
  the empty string.
\<close>

definition productNameForDeduction :: "recipe list \<Rightarrow> string option \<Rightarrow> string \<Rightarrow> string" where
  "productNameForDeduction recipes selectedRecipeId' productDescription' =
     (case selectedRecipeId' of
        None \<Rightarrow> productDescription'
      | Some rid \<Rightarrow>
          if rid = [] then productDescription'
          else (case find (\<lambda>r. recipe_id r = rid) recipes of
                  Some associatedRecipe \<Rightarrow> recipe_name associatedRecipe
                | None \<Rightarrow> productDescription'))"

definition handleChangeOrderStatus ::
  "bool \<Rightarrow> recipe list \<Rightarrow> item list \<Rightarrow> bool \<Rightarrow> firestore \<Rightarrow> string \<Rightarrow> order_status
     \<Rightarrow> string option \<Rightarrow> string \<Rightarrow> jsnum \<Rightarrow> outcome \<times> firestore" where
  "handleChangeOrderStatus ready recipes inventoryItems confirm db orderId currentStatus
       selectedRecipeId' productDescription' quantity' =
     (if \<not> ready then (NotReady, db)
      else
        let newStatus = (if currentStatus = Pendiente then Completado else Pendiente)
        in if newStatus = Completado then
             let name = productNameForDeduction recipes selectedRecipeId' productDescription'
             in case find_item inventoryItems name finished_good of
                  None \<Rightarrow> (ProductNotFound name, db)
                | Some finishedProduct \<Rightarrow>
                    if js_lt (stock finishedProduct) quantity'
                    then (InsufficientFinishedGood name (stock finishedProduct) quantity', db)
                    else if \<not> confirm then (Cancelled, db)
                    else
                      (case updateDoc_stock (inventory db) (item_id finishedProduct)
                              (js_sub (stock finishedProduct) quantity') of
                         None \<Rightarrow> (WriteError, db)
                       | Some docs \<Rightarrow>
                           (case updateDoc_status (sales_orders db) orderId newStatus of
                              None \<Rightarrow> (WriteError, db\<lparr>inventory := docs\<rparr>)
                            | Some orders \<Rightarrow>
                                (StatusUpdated newStatus,
                                 db\<lparr>inventory := docs, sales_orders := orders\<rparr>)))
           else if \<not> confirm then (Cancelled, db)
           else
             (case updateDoc_status (sales_orders db) orderId newStatus of
                None \<Rightarrow> (WriteError, db)
              | Some orders \<Rightarrow> (StatusUpdated newStatus, db\<lparr>sales_orders := orders\<rparr>)))"


section \<open>The specification's converter and planner\<close>

text \<open>
  The closed unit table as the specification gives it (section 3), a tagged table from a
  unit symbol to its category and factor, with the count symbol spelled as in the source;
  and \<open>convert\<close> as its section 4.1 words it.
\<close>

datatype category = Mass | Volume | Count

text \<open>The name the source gives each category.\<close>

fun category_name :: "category \<Rightarrow> string" where
  "category_name Mass = ''mass''"
| "category_name Volume = ''volume''"
| "category_name Count = ''count''"

definition spec_unit_table :: "string \<Rightarrow> (category \<times> rat) option" where
  "spec_unit_table =
     map_of [(''g'', (Mass, 1)), (''kg'', (Mass, 1000)),
             (''ml'', (Volume, 1)), (''lt'', (Volume, 1000)), (''cc'', (Volume, 1)),
             (''unidad'', (Count, 1))]"

definition spec_convert :: "jsnum \<Rightarrow> string \<Rightarrow> string \<Rightarrow> jsnum option" where
  "spec_convert v fromUnit toUnit =
     (if fromUnit = toUnit then Some v
      else case (spec_unit_table fromUnit, spec_unit_table toUnit) of
             (Some (c1, f1), Some (c2, f2)) \<Rightarrow>
               if c1 = c2 then Some (js_div (js_mul v (Num f1)) (Num f2)) else None
           | _ \<Rightarrow> None)"

text \<open>
  \<open>convert\<close> on the lowercase forms of the two symbols: the converter of section 4.1 made
  case-insensitive.
\<close>

definition spec_convert_folded :: "jsnum \<Rightarrow> string \<Rightarrow> string \<Rightarrow> jsnum option" where
  "spec_convert_folded v fromUnit toUnit =
     spec_convert v (toLowerCase fromUnit) (toLowerCase toUnit)"

text \<open>
  \<open>plan\<close> as section 4.2 words it, over a converter \<open>convert\<close>: every ingredient is evaluated
  on its own and gives either one shortage entry (the name resolves to no raw material, the
  conversion of step 1 fails, or \<open>requiredBase > availableBase\<close> in step 3) or one deduction
  entry (step 4); any shortage makes the result the report of all of them.
\<close>

datatype plan_result = ShortageReport "shortage list" | DeductionPlan "deduction list"

definition spec_evaluate ::
  "(jsnum \<Rightarrow> string \<Rightarrow> string \<Rightarrow> jsnum option) \<Rightarrow> item list \<Rightarrow> jsnum \<Rightarrow> ingredient
     \<Rightarrow> shortage + deduction" where
  "spec_evaluate convert inventorySnapshot quantityToProduce ing =
     (case find_item inventorySnapshot (ing_name ing) raw_material of
        None \<Rightarrow> Inl (NotFoundAsRawMaterial (ing_name ing))
      | Some matchedItem \<Rightarrow>
          (case convert (js_mul (ing_quantity ing) quantityToProduce) (ing_unit ing)
                  (unit_type matchedItem) of
             None \<Rightarrow> Inl (UnitConversionError (ing_name ing))
           | Some requiredBase \<Rightarrow>
               let availableBase = js_mul (stock matchedItem) (unit_value matchedItem)
               in if js_lt availableBase requiredBase
                  then Inl (InsufficientStock (ing_name ing) requiredBase availableBase
                              (unit_type matchedItem))
                  else Inr \<lparr>itemId = item_id matchedItem,
                            newStock = js_div (js_sub availableBase requiredBase)
                                         (unit_value matchedItem)\<rparr>))"

definition spec_shortages ::
  "(jsnum \<Rightarrow> string \<Rightarrow> string \<Rightarrow> jsnum option) \<Rightarrow> item list \<Rightarrow> jsnum \<Rightarrow> ingredient list
     \<Rightarrow> shortage list" where
  "spec_shortages convert inventorySnapshot quantityToProduce ings =
     List.map_filter (\<lambda>r. case r of Inl s \<Rightarrow> Some s | Inr _ \<Rightarrow> None)
       (map (spec_evaluate convert inventorySnapshot quantityToProduce) ings)"

definition spec_entries ::
  "(jsnum \<Rightarrow> string \<Rightarrow> string \<Rightarrow> jsnum option) \<Rightarrow> item list \<Rightarrow> jsnum \<Rightarrow> ingredient list
     \<Rightarrow> deduction list" where
  "spec_entries convert inventorySnapshot quantityToProduce ings =
     List.map_filter (\<lambda>r. case r of Inl _ \<Rightarrow> None | Inr d \<Rightarrow> Some d)
       (map (spec_evaluate convert inventorySnapshot quantityToProduce) ings)"

definition spec_plan ::
  "(jsnum \<Rightarrow> string \<Rightarrow> string \<Rightarrow> jsnum option) \<Rightarrow> item list \<Rightarrow> recipe \<Rightarrow> jsnum
     \<Rightarrow> plan_result" where
  "spec_plan convert inventorySnapshot recipe quantityToProduce =
     (let shortages =
            spec_shortages convert inventorySnapshot quantityToProduce (ingredients recipe)
      in if shortages \<noteq> [] then ShortageReport shortages
         else DeductionPlan
                (spec_entries convert inventorySnapshot quantityToProduce
                   (ingredients recipe)))"

section \<open>Tests on numbers and the writes of a commit\<close>

text \<open>
  \<open>nonneg n\<close> is the test \<^verbatim>\<open>n >= 0\<close> and \<open>below_zero n\<close> the test \<^verbatim>\<open>n < 0\<close>; both are false of
  \<^verbatim>\<open>NaN\<close>. A unit symbol is plain when its lowercase form names no member of
  \<^verbatim>\<open>Object.prototype\<close>, so that the table lookup sees own properties only.
\<close>

definition nonneg :: "jsnum \<Rightarrow> bool" where
  "nonneg n = js_le (Num 0) n"

definition below_zero :: "jsnum \<Rightarrow> bool" where
  "below_zero n = js_lt n (Num 0)"

definition plain_unit :: "string \<Rightarrow> bool" where
  "plain_unit u = (toLowerCase u \<notin> set object_prototype_keys)"

text \<open>
  The last value a list of deductions writes to a document id, if it writes one, and the
  documents after every write of the list has been made.
\<close>

fun last_write :: "deduction list \<Rightarrow> string \<Rightarrow> jsnum option" where
  "last_write [] i = None"
| "last_write (d # ds) i =
     (case last_write ds i of
        Some v \<Rightarrow> Some v
      | None \<Rightarrow> if itemId d = i then Some (newStock d) else None)"

definition write_effect :: "deduction list \<Rightarrow> item list \<Rightarrow> item list" where
  "write_effect ds docs =
     map (\<lambda>d. case last_write ds (item_id d) of Some v \<Rightarrow> d\<lparr>stock := v\<rparr> | None \<Rightarrow> d) docs"

text \<open>
  The \<^verbatim>\<open>updateDoc\<close> writes of the \<^verbatim>\<open>try\<close> block of \<^verbatim>\<open>handleConfirmProduction\<close> in the order
  they are issued, and the document its \<^verbatim>\<open>addDoc\<close> creates, if it creates one.
\<close>

definition production_writes :: "deduction list \<Rightarrow> item option \<Rightarrow> jsnum \<Rightarrow> deduction list" where
  "production_writes ds finishedProduct q =
     ds @ (case finishedProduct of
             Some fp \<Rightarrow> [\<lparr>itemId = item_id fp, newStock = js_add (stock fp) q\<rparr>]
           | None \<Rightarrow> [])"

definition new_documents :: "string \<Rightarrow> item option \<Rightarrow> recipe \<Rightarrow> jsnum \<Rightarrow> item list" where
  "new_documents newId finishedProduct recipe q =
     (case finishedProduct of
        Some fp \<Rightarrow> []
      | None \<Rightarrow> [\<lparr>item_id = newId, item_name = recipe_name recipe, unit_value = Num 1,
                  unit_type = ''unidad'', stock = q, item_type = finished_good\<rparr>])"

text \<open>Two lists of documents that differ in the stock fields at most.\<close>

definition same_but_stock :: "item list \<Rightarrow> item list \<Rightarrow> bool" where
  "same_but_stock docs docs' =
     (map (\<lambda>d. d\<lparr>stock := Num 0\<rparr>) docs = map (\<lambda>d. d\<lparr>stock := Num 0\<rparr>) docs')"

text \<open>Two lists of orders that differ in the status fields at most.\<close>

definition same_but_status :: "sales_order list \<Rightarrow> sales_order list \<Rightarrow> bool" where
  "same_but_status docs docs' =
     (map (\<lambda>d. d\<lparr>status := Pendiente\<rparr>) docs = map (\<lambda>d. d\<lparr>status := Pendiente\<rparr>) docs')"

section \<open>Example data\<close>

text \<open>
  A small store, used to run the handlers on concrete input: 150 g of flour in one bag,
  two litre packs of milk, ten finished cakes, and one pending order of five cakes.
\<close>

definition flour :: item where
  "flour = \<lparr>item_id = ''i1'', item_name = ''Flour'', unit_value = Num 150, unit_type = ''g'',
            stock = Num 1, item_type = raw_material\<rparr>"

definition milk :: item where
  "milk = \<lparr>item_id = ''i2'', item_name = ''Milk'', unit_value = Num 1000, unit_type = ''cc'',
           stock = Num 2, item_type = raw_material\<rparr>"

definition cakes :: item where
  "cakes = \<lparr>item_id = ''i3'', item_name = ''Cake'', unit_value = Num 1, unit_type = ''unidad'',
            stock = Num 10, item_type = finished_good\<rparr>"

definition bread :: recipe where
  "bread = \<lparr>recipe_id = ''r1'', recipe_name = ''Bread'', recipe_type = ''cookie'',
            ingredients = [\<lparr>ing_name = ''flour'', ing_quantity = Num 100, ing_unit = ''g''\<rparr>]\<rparr>"

definition cake :: recipe where
  "cake = \<lparr>recipe_id = ''r2'', recipe_name = ''cake'', recipe_type = ''cake'',
           ingredients = [\<lparr>ing_name = ''flour'', ing_quantity = Num 100, ing_unit = ''g''\<rparr>,
                          \<lparr>ing_name = ''milk'', ing_quantity = Num (1 / 2), ing_unit = ''lt''\<rparr>]\<rparr>"

definition trifle :: recipe where
  "trifle = \<lparr>recipe_id = ''r3'', recipe_name = ''Trifle'', recipe_type = ''cake'',
             ingredients = [\<lparr>ing_name = ''flour'', ing_quantity = Num 100, ing_unit = ''g''\<rparr>,
                            \<lparr>ing_name = ''sugar'', ing_quantity = Num 1, ing_unit = ''kg''\<rparr>,
                            \<lparr>ing_name = ''milk'', ing_quantity = Num 50, ing_unit = ''g''\<rparr>]\<rparr>"

definition air :: recipe where
  "air = \<lparr>recipe_id = ''r4'', recipe_name = ''Air'', recipe_type = ''cookie'', ingredients = []\<rparr>"

definition order1 :: sales_order where
  "order1 = \<lparr>order_id = ''o1'', customerName = ''Ana'', orderType = ''cake'',
             selectedRecipeId = Some ''r2'', productDescription = [], quantity = Num 5,
             orderDate = ''2025-01-01'', status = Pendiente\<rparr>"

definition store :: firestore where
  "store = \<lparr>inventory = [flour, milk, cakes], sales_orders = [order1]\<rparr>"

text \<open>
  The store after one confirmed production of one bread, after a second one planned on
  the same snapshot, after one confirmed production of one cake, and after the order has
  been completed.
\<close>

definition first_bread :: item where
  "first_bread = \<lparr>item_id = ''n1'', item_name = ''Bread'', unit_value = Num 1,
                  unit_type = ''unidad'', stock = Num 1, item_type = finished_good\<rparr>"

definition after_first_commit :: firestore where
  "after_first_commit =
     store\<lparr>inventory := [flour\<lparr>stock := Num (1 / 3)\<rparr>, milk, cakes, first_bread]\<rparr>"


definition after_cake :: firestore where
  "after_cake =
     store\<lparr>inventory := [flour\<lparr>stock := Num (1 / 3)\<rparr>, milk\<lparr>stock := Num (3 / 2)\<rparr>,
                          cakes\<lparr>stock := Num 11\<rparr>]\<rparr>"

definition after_completion :: firestore where
  "after_completion =
     store\<lparr>inventory := [flour, milk, cakes\<lparr>stock := Num 5\<rparr>],
           sales_orders := [order1\<lparr>status := Completado\<rparr>]\<rparr>"

text \<open>
  A recipe that writes its litre of milk in capitals and one whose unit symbol names a
  member of \<^verbatim>\<open>Object.prototype\<close>, with the store after one confirmed production of each.
\<close>

definition shake :: recipe where
  "shake = \<lparr>recipe_id = ''r5'', recipe_name = ''Shake'', recipe_type = ''cake'',
            ingredients = [\<lparr>ing_name = ''milk'', ing_quantity = Num 1, ing_unit = ''LT''\<rparr>]\<rparr>"

definition glue :: recipe where
  "glue = \<lparr>recipe_id = ''r6'', recipe_name = ''Glue'', recipe_type = ''cake'',
           ingredients =
             [\<lparr>ing_name = ''flour'', ing_quantity = Num 100, ing_unit = ''constructor''\<rparr>]\<rparr>"

definition after_shake :: firestore where
  "after_shake =
     store\<lparr>inventory := [flour, milk\<lparr>stock := Num 1\<rparr>, cakes,
                          \<lparr>item_id = ''n1'', item_name = ''Shake'', unit_value = Num 1,
                           unit_type = ''unidad'', stock = Num 1,
                           item_type = finished_good\<rparr>]\<rparr>"

definition after_glue :: firestore where
  "after_glue =
     store\<lparr>inventory := [flour\<lparr>stock := NaN\<rparr>, milk, cakes,
                          \<lparr>item_id = ''n1'', item_name = ''Glue'', unit_value = Num 1,
                           unit_type = ''unidad'', stock = Num 1,
                           item_type = finished_good\<rparr>]\<rparr>"

text \<open>
  A store of grain whose numbers are large, \<open>e308\<close> packs of 10 g (\<open>e308\<close> is the number
  written \<^verbatim>\<open>1e308\<close>), with a recipe that takes \<open>e308\<close> g of it; and a store whose one raw
  material has the unit value -10, with a recipe that takes -20 g of it. Each with the
  store after one confirmed production.
\<close>

definition e308 :: rat where
  "e308 = 10 ^ 308"

definition silo :: item where
  "silo = \<lparr>item_id = ''i4'', item_name = ''Grain'', unit_value = Num 10, unit_type = ''g'',
           stock = Num e308, item_type = raw_material\<rparr>"

definition mash :: recipe where
  "mash = \<lparr>recipe_id = ''r7'', recipe_name = ''Mash'', recipe_type = ''cookie'',
           ingredients =
             [\<lparr>ing_name = ''grain'', ing_quantity = Num e308, ing_unit = ''g''\<rparr>]\<rparr>"

definition granary :: firestore where
  "granary = \<lparr>inventory = [silo], sales_orders = []\<rparr>"

definition after_mash :: firestore where
  "after_mash =
     granary\<lparr>inventory := [silo\<lparr>stock := NaN\<rparr>,
                            \<lparr>item_id = ''n1'', item_name = ''Mash'', unit_value = Num 1,
                           unit_type = ''unidad'', stock = Num 10,
                           item_type = finished_good\<rparr>]\<rparr>"

definition voucher :: item where
  "voucher = \<lparr>item_id = ''i5'', item_name = ''Voucher'', unit_value = Num (- 10),
              unit_type = ''g'', stock = Num 1, item_type = raw_material\<rparr>"

definition refund :: recipe where
  "refund = \<lparr>recipe_id = ''r8'', recipe_name = ''Refund'', recipe_type = ''cookie'',
             ingredients =
               [\<lparr>ing_name = ''voucher'', ing_quantity = Num (- 20), ing_unit = ''g''\<rparr>]\<rparr>"

definition till :: firestore where
  "till = \<lparr>inventory = [voucher], sales_orders = []\<rparr>"

definition after_refund :: firestore where
  "after_refund =
     till\<lparr>inventory := [voucher\<lparr>stock := Num (- 1)\<rparr>,
                         \<lparr>item_id = ''n1'', item_name = ''Refund'', unit_value = Num 1,
                           unit_type = ''unidad'', stock = Num 1,
                           item_type = finished_good\<rparr>]\<rparr>"

section \<open>Facts about numbers and strings\<close>

text \<open>The two large constants as numerals, for evaluation.\<close>

lemma overflow_bound_code [code]:
  "overflow_bound =
     179769313486231580793728971405303415079934132710037826936173778980444968292764750946649017977587207096330286416692887910946555547851940402630657488671505820681908902000708383676273854845817711531764475730270069855571366959622842914819860834936475292719074168444365510704342711559699508093042880177904174497792"
  by (simp add: overflow_bound_def)

lemma e308_code [code]:
  "e308 =
     100000000000000000000000000000000000000000000000000000000000000000000000000000000000000000000000000000000000000000000000000000000000000000000000000000000000000000000000000000000000000000000000000000000000000000000000000000000000000000000000000000000000000000000000000000000000000000000000000000000000000000000"
  by (simp add: e308_def)

lemma js_div_one: "js_div (js_mul x y) (Num 1) = js_mul x y"
  by (cases x; cases y) (auto simp: finite_result_def)

lemma toLowerCase_char_idem: "toLowerCase_char (toLowerCase_char c) = toLowerCase_char c"
  by (auto simp: toLowerCase_char_def Let_def)

lemma toLowerCase_idem: "toLowerCase (toLowerCase s) = toLowerCase s"
  by (simp add: toLowerCase_def toLowerCase_char_idem)

lemma toLowerCase_literals:
  "toLowerCase ''KG'' = ''kg''" "toLowerCase ''G'' = ''g''" "toLowerCase ''g'' = ''g''"
  "toLowerCase ''kg'' = ''kg''"
  by code_simp+

lemma find_item_Some:
  "find_item its n k = Some it \<Longrightarrow>
     it \<in> set its \<and> item_type it = k \<and> toLowerCase (item_name it) = toLowerCase n"
  by (auto simp: find_item_def find_Some_iff)

section \<open>The converter against the closed table\<close>

lemma spec_unit_table_Some:
  "spec_unit_table u = Some (c, f) \<Longrightarrow>
     (u = ''g'' \<and> c = Mass \<and> f = 1) \<or> (u = ''kg'' \<and> c = Mass \<and> f = 1000) \<or>
     (u = ''ml'' \<and> c = Volume \<and> f = 1) \<or> (u = ''lt'' \<and> c = Volume \<and> f = 1000) \<or>
     (u = ''cc'' \<and> c = Volume \<and> f = 1) \<or> (u = ''unidad'' \<and> c = Count \<and> f = 1)"
  unfolding spec_unit_table_def
  by (simp only: map_of.simps fst_conv snd_conv fun_upd_apply split: if_splits) auto

lemma spec_unit_table_None:
  "spec_unit_table u = None \<Longrightarrow>
     u \<noteq> ''g'' \<and> u \<noteq> ''kg'' \<and> u \<noteq> ''ml'' \<and> u \<noteq> ''lt'' \<and> u \<noteq> ''cc'' \<and> u \<noteq> ''unidad''"
  unfolding spec_unit_table_def
  by (simp only: map_of.simps fst_conv snd_conv fun_upd_apply split: if_splits) simp_all

lemma own_categories:
  "category_of ''g'' = ''mass''" "category_of ''kg'' = ''mass''"
  "category_of ''ml'' = ''volume''" "category_of ''lt'' = ''volume''"
  "category_of ''cc'' = ''volume''" "category_of ''unidad'' = ''count''"
  by code_simp+

lemma own_factor_values:
  "conversionFactors ''mass'' ''g'' = JNumber (Num 1)"
  "conversionFactors ''mass'' ''kg'' = JNumber (Num 1000)"
  "conversionFactors ''volume'' ''ml'' = JNumber (Num 1)"
  "conversionFactors ''volume'' ''lt'' = JNumber (Num 1000)"
  "conversionFactors ''volume'' ''cc'' = JNumber (Num 1)"
  "conversionFactors ''count'' ''unidad'' = JNumber (Num 1)"
  by code_simp+

lemma category_of_known:
  assumes "spec_unit_table u = Some (c, f)"
  shows "category_of u = category_name c \<and>
         conversionFactors (category_name c) u = JNumber (Num f)"
  using spec_unit_table_Some[OF assms]
  by (elim disjE conjE)
     (simp_all only: own_categories own_factor_values category_name.simps simp_thms)

lemma category_of_unknown:
  assumes "spec_unit_table u = None" and "u \<notin> set object_prototype_keys"
  shows "category_of u = []"
proof -
  from spec_unit_table_None[OF assms(1)]
  have "map_of (own_factors ''mass'') u = None" "map_of (own_factors ''volume'') u = None"
    "map_of (own_factors ''count'') u = None"
    by (simp_all add: own_factors_def)
  with assms(2) show ?thesis
    by (simp add: category_of_def conversionFactors_def)
qed

lemma category_name_inj: "category_name c1 = category_name c2 \<longleftrightarrow> c1 = c2"
  by (cases c1; cases c2) simp_all

lemma category_name_nonempty: "category_name c \<noteq> []"
  by (cases c) simp_all

lemma convertUnits_spec_convert:
  assumes "toLowerCase fromUnit \<notin> set object_prototype_keys"
    and "toLowerCase toUnit \<notin> set object_prototype_keys"
  shows "convertUnits v fromUnit toUnit =
         spec_convert v (toLowerCase fromUnit) (toLowerCase toUnit)"
proof (cases "toLowerCase fromUnit = toLowerCase toUnit")
  case True
  then show ?thesis by (simp add: convertUnits_def spec_convert_def)
next
  case ne: False
  show ?thesis
  proof (cases "spec_unit_table (toLowerCase fromUnit)")
    case None
    with assms ne show ?thesis
      by (simp add: convertUnits_def spec_convert_def category_of_unknown)
  next
    case (Some a)
    then obtain c1 f1 where a: "spec_unit_table (toLowerCase fromUnit) = Some (c1, f1)"
      by (cases a) auto
    note ka = category_of_known[OF a]
    show ?thesis
    proof (cases "spec_unit_table (toLowerCase toUnit)")
      case None
      with assms ne a ka show ?thesis
        by (simp add: convertUnits_def spec_convert_def category_of_unknown Let_def
              category_name_nonempty)
    next
      case (Some b)
      then obtain c2 f2 where b: "spec_unit_table (toLowerCase toUnit) = Some (c2, f2)"
        by (cases b) auto
      note kb = category_of_known[OF b]
      from ka kb ne a b show ?thesis
        by (auto simp add: convertUnits_def spec_convert_def Let_def category_name_inj
              category_name_nonempty)
    qed
  qed
qed

text \<open>
  C4, as the specification states it, fails twice. The count category of the source has
  the symbol \<^verbatim>\<open>unidad\<close>; \<^verbatim>\<open>unit\<close> is in no category. And a symbol that is in no category but
  names a member of \<^verbatim>\<open>Object.prototype\<close> is not refused: the lookup finds the inherited
  member, the symbol counts as a mass unit, and the result is \<^verbatim>\<open>NaN\<close> instead of \<^verbatim>\<open>null\<close>.
\<close>

theorem convertUnits_table_counterexample:
  "conversionFactors ''count'' ''unit'' = JUndefined \<and>
   category_of ''unit'' = [] \<and>
   conversionFactors ''count'' ''unidad'' = JNumber (Num 1) \<and>
   convertUnits (Num 5) ''constructor'' ''g'' = Some NaN"
  by code_simp

text \<open>
  C4, amended: the table of the source is Mass{g:1, kg:1000}, Volume{ml:1, lt:1000, cc:1},
  Count{unidad:1}. For two symbols whose lowercase forms name no member of
  \<^verbatim>\<open>Object.prototype\<close>, \<open>convertUnits\<close> is the specification's \<open>convert\<close> over that table on
  the lowercase forms: \<open>value \<times> factor(from) / factor(to)\<close> for two distinct symbols of one
  category, \<^verbatim>\<open>null\<close> when one of two distinct symbols is unknown or the categories differ.
  The three examples of the specification hold.
\<close>

theorem convertUnits_closed_table:
  assumes "toLowerCase fromUnit \<notin> set object_prototype_keys"
    and "toLowerCase toUnit \<notin> set object_prototype_keys"
  shows "own_factors ''mass'' = [(''g'', 1), (''kg'', 1000)] \<and>
         own_factors ''volume'' = [(''ml'', 1), (''lt'', 1000), (''cc'', 1)] \<and>
         own_factors ''count'' = [(''unidad'', 1)] \<and>
         convertUnits v fromUnit toUnit =
           spec_convert v (toLowerCase fromUnit) (toLowerCase toUnit) \<and>
         convertUnits (Num 100) ''g'' ''kg'' = Some (Num (1 / 10)) \<and>
         convertUnits (Num 1) ''lt'' ''ml'' = Some (Num 1000) \<and>
         convertUnits (Num 5) ''g'' ''ml'' = None"
proof -
  have "own_factors ''mass'' = [(''g'', 1), (''kg'', 1000)]"
    "own_factors ''volume'' = [(''ml'', 1), (''lt'', 1000), (''cc'', 1)]"
    "own_factors ''count'' = [(''unidad'', 1)]"
    by (simp_all add: own_factors_def)
  moreover have "convertUnits (Num 100) ''g'' ''kg'' = Some (Num (1 / 10))" by code_simp
  moreover have "convertUnits (Num 1) ''lt'' ''ml'' = Some (Num 1000)" by code_simp
  moreover have "convertUnits (Num 5) ''g'' ''ml'' = None" by code_simp
  ultimately show ?thesis
    using convertUnits_spec_convert[OF assms] by simp
qed

theorem convertUnits_closed_table_witness:
  "toLowerCase ''KG'' \<notin> set object_prototype_keys \<and>
   toLowerCase ''g'' \<notin> set object_prototype_keys \<and>
   convertUnits (Num 2) ''KG'' ''g'' = spec_convert (Num 2) ''kg'' ''g'' \<and>
   spec_convert (Num 2) ''kg'' ''g'' = Some (Num 2000)"
proof -
  have h1: "toLowerCase ''KG'' \<notin> set object_prototype_keys" by code_simp
  have h2: "toLowerCase ''g'' \<notin> set object_prototype_keys" by code_simp
  have "spec_convert (Num 2) ''kg'' ''g'' = Some (Num 2000)" by code_simp
  with h1 h2 convertUnits_closed_table[OF h1 h2, of "Num 2"] show ?thesis
    by (simp add: toLowerCase_literals)
qed

text \<open>
  C5: for every value and every unit symbol, also one that is in no category,
  \<open>convertUnits v u u\<close> returns \<open>v\<close> unchanged and never fails.
\<close>

theorem convertUnits_same_symbol: "convertUnits v u u = Some v"
  by (simp add: convertUnits_def)

theorem convertUnits_same_symbol_witness:
  "category_of (toLowerCase ''furlong'') = [] \<and>
   convertUnits (Num 7) ''furlong'' ''furlong'' = Some (Num 7)"
proof -
  have "category_of (toLowerCase ''furlong'') = []" by code_simp
  then show ?thesis
    using convertUnits_same_symbol[of "Num 7" "''furlong''"] by simp
qed

text \<open>
  C10: both symbols are lowercased before the identity test and before the table lookup.
  So two calls whose symbols differ in letter case only return the same, for instance
  \<open>convertUnits v ''KG'' ''g''\<close> is 1000 times \<open>v\<close> and \<open>convertUnits v ''G'' ''g''\<close> is \<open>v\<close>.
\<close>

theorem convertUnits_case_insensitive:
  assumes "toLowerCase U = toLowerCase u" and "toLowerCase W = toLowerCase w"
  shows "convertUnits v U W = convertUnits v u w \<and>
         convertUnits v U W = convertUnits v (toLowerCase U) (toLowerCase W) \<and>
         convertUnits v ''KG'' ''g'' = Some (js_mul v (Num 1000)) \<and>
         convertUnits v ''G'' ''g'' = Some v"
proof -
  have "convertUnits v U W = convertUnits v u w"
    using assms by (simp add: convertUnits_def)
  moreover have "convertUnits v U W = convertUnits v (toLowerCase U) (toLowerCase W)"
    by (simp add: convertUnits_def toLowerCase_idem)
  moreover have "convertUnits v ''KG'' ''g'' = Some (js_mul v (Num 1000))"
    by (simp add: convertUnits_def toLowerCase_literals own_categories own_factor_values
          js_div_one)
  moreover have "convertUnits v ''G'' ''g'' = Some v"
    by (simp add: convertUnits_def toLowerCase_literals)
  ultimately show ?thesis by simp
qed

theorem convertUnits_case_insensitive_witness:
  "toLowerCase ''Kg'' = toLowerCase ''kG'' \<and> toLowerCase ''G'' = toLowerCase ''g'' \<and>
   convertUnits (Num 3) ''Kg'' ''G'' = convertUnits (Num 3) ''kG'' ''g'' \<and>
   convertUnits (Num 3) ''kG'' ''g'' = Some (Num 3000)"
proof -
  have h1: "toLowerCase ''Kg'' = toLowerCase ''kG''" by code_simp
  have h2: "toLowerCase ''G'' = toLowerCase ''g''" by code_simp
  have "convertUnits (Num 3) ''kG'' ''g'' = Some (Num 3000)" by code_simp
  with h1 h2 convertUnits_case_insensitive[OF h1 h2, of "Num 3"] show ?thesis by simp
qed


section \<open>The ingredient loop against the specification's planner\<close>

text \<open>
  In two steps: the loop of the handler is the planner over the source's own converter,
  and on plain unit symbols that converter is the specification's on the lowercase forms.
\<close>

lemma spec_shortages_simps:
  "spec_shortages convertUnits snap q [] = []"
  "spec_shortages convertUnits snap q (ing # ings) =
     (case spec_evaluate convertUnits snap q ing of Inl s \<Rightarrow> [s] | Inr _ \<Rightarrow> []) @
     spec_shortages convertUnits snap q ings"
  by (simp_all add: spec_shortages_def split: sum.splits)

lemma spec_entries_simps:
  "spec_entries convertUnits snap q [] = []"
  "spec_entries convertUnits snap q (ing # ings) =
     (case spec_evaluate convertUnits snap q ing of Inl _ \<Rightarrow> [] | Inr d \<Rightarrow> [d]) @
     spec_entries convertUnits snap q ings"
  by (simp_all add: spec_entries_def split: sum.splits)

text \<open>
  One turn of the loop adds the planner's shortage entry, or else its deduction entry.
  After a shortage the list of deductions no longer matters.
\<close>

lemma check_ingredient_step:
  "\<exists>ds'. check_ingredient snap q (c, ms, ds) ing =
     (case spec_evaluate convertUnits snap q ing of
        Inl s \<Rightarrow> (False, ms @ [s], ds')
      | Inr d \<Rightarrow> (c, ms, ds @ [d]))"
  by (simp add: check_ingredient_def spec_evaluate_def Let_def split: option.splits)

lemma foldl_check_ingredient:
  "foldl (check_ingredient snap q) (c, ms, ds) ings = (c', ms', ds') \<Longrightarrow>
     ms' = ms @ spec_shortages convertUnits snap q ings \<and>
     c' = (c \<and> spec_shortages convertUnits snap q ings = []) \<and>
     (spec_shortages convertUnits snap q ings = [] \<longrightarrow>
        ds' = ds @ spec_entries convertUnits snap q ings)"
proof (induction ings arbitrary: c ms ds)
  case Nil
  then show ?case by (simp add: spec_shortages_simps spec_entries_simps)
next
  case (Cons ing ings)
  obtain ds1 where step: "check_ingredient snap q (c, ms, ds) ing =
     (case spec_evaluate convertUnits snap q ing of
        Inl s \<Rightarrow> (False, ms @ [s], ds1)
      | Inr d \<Rightarrow> (c, ms, ds @ [d]))"
    using check_ingredient_step by blast
  show ?case
  proof (cases "spec_evaluate convertUnits snap q ing")
    case (Inl s)
    with step Cons.prems
    have "foldl (check_ingredient snap q) (False, ms @ [s], ds1) ings = (c', ms', ds')"
      by simp
    from Cons.IH[OF this] Inl show ?thesis
      by (simp add: spec_shortages_simps spec_entries_simps)
  next
    case (Inr d)
    with step Cons.prems
    have "foldl (check_ingredient snap q) (c, ms, ds @ [d]) ings = (c', ms', ds')"
      by simp
    from Cons.IH[OF this] Inr show ?thesis
      by (simp add: spec_shortages_simps spec_entries_simps)
  qed
qed

lemma check_ingredients_spec:
  "\<exists>ds. check_ingredients snap q ings =
          (spec_shortages convertUnits snap q ings = [],
           spec_shortages convertUnits snap q ings, ds) \<and>
        (spec_shortages convertUnits snap q ings = [] \<longrightarrow> ds = spec_entries convertUnits snap q ings)"
proof -
  obtain c ms ds where r: "check_ingredients snap q ings = (c, ms, ds)"
    by (cases "check_ingredients snap q ings") auto
  then have "foldl (check_ingredient snap q) (True, [], []) ings = (c, ms, ds)"
    by (simp add: check_ingredients_def)
  from foldl_check_ingredient[OF this] r show ?thesis by simp
qed

lemma js_lt_not_le: "js_lt (Num 0) q \<Longrightarrow> \<not> js_le q (Num 0)"
  by (cases q) auto

lemma handleConfirmProduction_plan:
  assumes "\<not> js_le q (Num 0)"
  shows "handleConfirmProduction True snap confirm newId db recipe q =
     (case spec_plan convertUnits snap recipe q of
        ShortageReport shortages \<Rightarrow> (Shortage shortages, db)
      | DeductionPlan entries \<Rightarrow>
          if confirm
          then commit_production newId db entries
                 (find_item snap (recipe_name recipe) finished_good) recipe q
          else (Cancelled, db))"
proof -
  obtain ds where r: "check_ingredients snap q (ingredients recipe) =
       (spec_shortages convertUnits snap q (ingredients recipe) = [],
        spec_shortages convertUnits snap q (ingredients recipe), ds)"
    and ds: "spec_shortages convertUnits snap q (ingredients recipe) = [] \<longrightarrow>
             ds = spec_entries convertUnits snap q (ingredients recipe)"
    using check_ingredients_spec[of snap q "ingredients recipe"] by blast
  show ?thesis
  proof (cases "spec_shortages convertUnits snap q (ingredients recipe) = []")
    case True
    with assms r ds show ?thesis
      by (simp add: handleConfirmProduction_def spec_plan_def Let_def)
  next
    case False
    with assms r show ?thesis
      by (simp add: handleConfirmProduction_def spec_plan_def Let_def)
  qed
qed

text \<open>
  On plain unit symbols the planner over the source's converter is the planner over the
  specification's converter on the lowercase forms.
\<close>

lemma spec_evaluate_folded:
  assumes "plain_unit (ing_unit ing)" and "\<forall>it\<in>set snap. plain_unit (unit_type it)"
  shows "spec_evaluate convertUnits snap q ing = spec_evaluate spec_convert_folded snap q ing"
proof (cases "find_item snap (ing_name ing) raw_material")
  case None
  then show ?thesis by (simp add: spec_evaluate_def)
next
  case (Some it)
  then have "it \<in> set snap" by (simp add: find_item_Some)
  with assms(2) have "plain_unit (unit_type it)" by blast
  with assms(1)
  have "convertUnits (js_mul (ing_quantity ing) q) (ing_unit ing) (unit_type it) =
        spec_convert_folded (js_mul (ing_quantity ing) q) (ing_unit ing) (unit_type it)"
    by (simp add: plain_unit_def spec_convert_folded_def convertUnits_spec_convert)
  with Some show ?thesis by (simp add: spec_evaluate_def)
qed

lemma spec_plan_folded:
  assumes "\<forall>ing\<in>set (ingredients recipe). plain_unit (ing_unit ing)"
    and "\<forall>it\<in>set snap. plain_unit (unit_type it)"
  shows "spec_plan convertUnits snap recipe q = spec_plan spec_convert_folded snap recipe q"
proof -
  have "map (spec_evaluate convertUnits snap q) (ingredients recipe) =
        map (spec_evaluate spec_convert_folded snap q) (ingredients recipe)"
    using assms by (simp add: spec_evaluate_folded)
  then show ?thesis
    unfolding spec_plan_def spec_shortages_def spec_entries_def by (simp only:)
qed

text \<open>
  C3, as the specification states it, fails. Its \<open>convert\<close> compares and looks up the
  symbols as they are written, and the symbols of its table are lowercase: for a litre of
  milk written \<^verbatim>\<open>LT\<close> against a stock in \<^verbatim>\<open>cc\<close> the \<open>plan\<close> of section 4.2 reports a unit
  mismatch, while the handler, whose converter lowercases both symbols first, deducts one
  pack of milk and adds the product. And for an ingredient whose unit is \<^verbatim>\<open>constructor\<close>,
  a symbol of no category in either letter case, \<open>plan\<close> reports a unit mismatch, while the
  handler finds the inherited member of \<^verbatim>\<open>Object.prototype\<close>, takes \<^verbatim>\<open>NaN\<close> for the
  requirement, which no stock is below, and writes \<^verbatim>\<open>NaN\<close> to the stock of the flour.
\<close>

theorem production_plan_counterexample:
  "spec_plan spec_convert (inventory store) shake (Num 1) =
     ShortageReport [UnitConversionError ''milk''] \<and>
   handleConfirmProduction True (inventory store) True ''n1'' store shake (Num 1) =
     (ProductionConfirmed, after_shake) \<and>
   stock (inventory after_shake ! 1) = Num 1 \<and>
   spec_plan spec_convert (inventory store) glue (Num 1) =
     ShortageReport [UnitConversionError ''flour''] \<and>
   spec_plan spec_convert_folded (inventory store) glue (Num 1) =
     ShortageReport [UnitConversionError ''flour''] \<and>
   handleConfirmProduction True (inventory store) True ''n1'' store glue (Num 1) =
     (ProductionConfirmed, after_glue) \<and>
   stock (inventory after_glue ! 0) = NaN"
  by code_simp

text \<open>
  C3, amended: take a quantity above zero, a recipe and a snapshot in which the lowercase
  form of every unit symbol names no member of \<^verbatim>\<open>Object.prototype\<close>. Then the handler is the
  \<open>plan\<close> of section 4.2, with \<open>convert\<close> of section 4.1 applied to the lowercase forms of
  the two symbols, followed by the commit. \<open>plan\<close> looks at every ingredient: a name that
  no raw material has gives a not-found entry, a failed conversion gives a
  conversion-error entry, a requirement above the available amount gives a deficit entry,
  and the ingredients after it are still evaluated. With any entry the outcome is the
  report of all entries, in order, and the store is unchanged; with none, the deductions
  that reach the commit are one per ingredient, each with the new stock
  (available - required) / unit value.
\<close>

theorem production_plan_refines_spec:
  assumes "js_lt (Num 0) quantityToProduce"
    and "\<forall>ing\<in>set (ingredients recipe). plain_unit (ing_unit ing)"
    and "\<forall>it\<in>set snap. plain_unit (unit_type it)"
  shows "handleConfirmProduction True snap confirm newId db recipe quantityToProduce =
     (case spec_plan spec_convert_folded snap recipe quantityToProduce of
        ShortageReport shortages \<Rightarrow> (Shortage shortages, db)
      | DeductionPlan entries \<Rightarrow>
          if confirm
          then commit_production newId db entries
                 (find_item snap (recipe_name recipe) finished_good) recipe quantityToProduce
          else (Cancelled, db))"
proof -
  from assms(1) have "\<not> js_le quantityToProduce (Num 0)" by (rule js_lt_not_le)
  from handleConfirmProduction_plan[OF this] spec_plan_folded[OF assms(2,3)]
  show ?thesis by simp
qed

theorem production_plan_refines_spec_witness:
  "js_lt (Num 0) (Num 1) \<and> js_lt (Num 0) (Num 2) \<and>
   list_all (\<lambda>ing. plain_unit (ing_unit ing)) (ingredients shake) \<and>
   list_all (\<lambda>ing. plain_unit (ing_unit ing)) (ingredients trifle) \<and>
   list_all (\<lambda>it. plain_unit (unit_type it)) (inventory store) \<and>
   spec_plan spec_convert_folded (inventory store) shake (Num 1) =
     DeductionPlan [\<lparr>itemId = ''i2'', newStock = Num 1\<rparr>] \<and>
   handleConfirmProduction True (inventory store) True ''n1'' store shake (Num 1) =
     (ProductionConfirmed, after_shake) \<and>
   handleConfirmProduction True (inventory store) False ''n1'' store shake (Num 1) =
     (Cancelled, store) \<and>
   spec_plan spec_convert_folded (inventory store) trifle (Num 2) =
     ShortageReport [InsufficientStock ''flour'' (Num 200) (Num 150) ''g'',
                     NotFoundAsRawMaterial ''sugar'', UnitConversionError ''milk''] \<and>
   handleConfirmProduction True (inventory store) True ''n1'' store trifle (Num 2) =
     (Shortage [InsufficientStock ''flour'' (Num 200) (Num 150) ''g'',
                NotFoundAsRawMaterial ''sugar'', UnitConversionError ''milk''], store)"
proof -
  have q1: "js_lt (Num 0) (Num 1)" and q2: "js_lt (Num 0) (Num 2)" by simp_all
  have u1: "\<forall>ing\<in>set (ingredients shake). plain_unit (ing_unit ing)" by code_simp
  have u2: "\<forall>ing\<in>set (ingredients trifle). plain_unit (ing_unit ing)" by code_simp
  have u3: "\<forall>it\<in>set (inventory store). plain_unit (unit_type it)" by code_simp
  have p1: "spec_plan spec_convert_folded (inventory store) shake (Num 1) =
      DeductionPlan [\<lparr>itemId = ''i2'', newStock = Num 1\<rparr>]"
    by code_simp
  have c1: "commit_production ''n1'' store [\<lparr>itemId = ''i2'', newStock = Num 1\<rparr>]
              (find_item (inventory store) (recipe_name shake) finished_good) shake (Num 1) =
            (ProductionConfirmed, after_shake)"
    by code_simp
  have p2: "spec_plan spec_convert_folded (inventory store) trifle (Num 2) =
      ShortageReport [InsufficientStock ''flour'' (Num 200) (Num 150) ''g'',
                      NotFoundAsRawMaterial ''sugar'', UnitConversionError ''milk'']"
    by code_simp
  have r1: "handleConfirmProduction True (inventory store) True ''n1'' store shake (Num 1) =
     (ProductionConfirmed, after_shake)"
    using production_plan_refines_spec[OF q1 u1 u3, of True "''n1''" store]
    by (simp add: p1 c1)
  have r2: "handleConfirmProduction True (inventory store) False ''n1'' store shake (Num 1) =
     (Cancelled, store)"
    using production_plan_refines_spec[OF q1 u1 u3, of False "''n1''" store]
    by (simp add: p1)
  have r3: "handleConfirmProduction True (inventory store) True ''n1'' store trifle (Num 2) =
     (Shortage [InsufficientStock ''flour'' (Num 200) (Num 150) ''g'',
                NotFoundAsRawMaterial ''sugar'', UnitConversionError ''milk''], store)"
    using production_plan_refines_spec[OF q2 u2 u3, of True "''n1''" store]
    by (simp add: p2)
  from q1 q2 u1 u2 u3 p1 p2 r1 r2 r3 show ?thesis by (simp add: list_all_iff)
qed

section \<open>Validation of the input\<close>

text \<open>
  C9, as the specification states it, fails for the empty ingredient list: the handler
  tests the quantity only. A confirmed call on a recipe without ingredients is not
  refused; it creates three units of the finished good out of nothing.
\<close>

theorem empty_recipe_counterexample:
  "ingredients air = [] \<and>
   handleConfirmProduction True (inventory store) True ''n1'' store air (Num 3) =
     (ProductionConfirmed,
      store\<lparr>inventory := inventory store @
         [\<lparr>item_id = ''n1'', item_name = ''Air'', unit_value = Num 1, unit_type = ''unidad'',
           stock = Num 3, item_type = finished_good\<rparr>]\<rparr>)"
  by code_simp

text \<open>
  C9, amended: every call with a quantity of zero or less is refused with the validation
  message and the store is unchanged. An empty ingredient list is not refused by the
  handler (the recipe form refuses to save such a recipe): for a quantity above zero
  there is no shortage and no deduction, and the confirmed call adds the quantity of the
  finished good, in a new document when the snapshot has no finished good of that name.
\<close>

theorem production_validation:
  "(js_le q (Num 0) \<longrightarrow>
      handleConfirmProduction ready snap confirm newId db recipe q =
        (if ready then InvalidQuantity else NotReady, db)) \<and>
   (js_lt (Num 0) q \<and> ingredients recipe = [] \<and>
    find_item snap (recipe_name recipe) finished_good = None \<longrightarrow>
      handleConfirmProduction True snap confirm newId db recipe q =
        (if confirm
         then (ProductionConfirmed,
               db\<lparr>inventory := inventory db @
                  [\<lparr>item_id = newId, item_name = recipe_name recipe, unit_value = Num 1,
                    unit_type = ''unidad'', stock = q, item_type = finished_good\<rparr>]\<rparr>)
         else (Cancelled, db)))"
proof (intro conjI impI)
  assume "js_le q (Num 0)"
  then show "handleConfirmProduction ready snap confirm newId db recipe q =
        (if ready then InvalidQuantity else NotReady, db)"
    by (simp add: handleConfirmProduction_def)
next
  assume a: "js_lt (Num 0) q \<and> ingredients recipe = [] \<and>
    find_item snap (recipe_name recipe) finished_good = None"
  then have "\<not> js_le q (Num 0)" by (simp add: js_lt_not_le)
  with a show "handleConfirmProduction True snap confirm newId db recipe q =
        (if confirm
         then (ProductionConfirmed,
               db\<lparr>inventory := inventory db @
                  [\<lparr>item_id = newId, item_name = recipe_name recipe, unit_value = Num 1,
                    unit_type = ''unidad'', stock = q, item_type = finished_good\<rparr>]\<rparr>)
         else (Cancelled, db))"
    by (simp add: handleConfirmProduction_def check_ingredients_def commit_production_def
          addDoc_item_def)
qed

theorem production_validation_witness:
  "js_le (Num 0) (Num 0) \<and>
   handleConfirmProduction True (inventory store) True ''n1'' store bread (Num 0) =
     (InvalidQuantity, store) \<and>
   js_lt (Num 0) (Num 3) \<and> ingredients air = [] \<and>
   find_item (inventory store) (recipe_name air) finished_good = None \<and>
   handleConfirmProduction True (inventory store) False ''n1'' store air (Num 3) =
     (Cancelled, store)"
proof -
  have h1: "js_le (Num 0) (Num 0)" by simp
  have h2: "js_lt (Num 0) (Num 3) \<and> ingredients air = [] \<and>
            find_item (inventory store) (recipe_name air) finished_good = None"
    by code_simp
  show ?thesis
    using h1 h2
      production_validation[of "Num 0" True "inventory store" True "''n1''" store bread]
      production_validation[of "Num 3" True "inventory store" False "''n1''" store air]
    by simp
qed

section \<open>Stocks are not driven below zero\<close>

text \<open>
  The sign of a result: a difference taken after the test \<^verbatim>\<open>a < b\<close> has failed, a quotient
  by a divisor above zero, and a sum with a quantity that has passed the test \<^verbatim>\<open>q <= 0\<close> are
  not below zero, whether they are finite, infinite or \<^verbatim>\<open>NaN\<close>.
\<close>

lemma overflow_bound_pos: "0 < overflow_bound"
proof -
  have "(2::rat) ^ 970 < 2 ^ 1024" by (rule power_strict_increasing) simp_all
  then show ?thesis by (simp add: overflow_bound_def)
qed

lemma finite_result_not_below: "0 \<le> x \<Longrightarrow> \<not> below_zero (finite_result x)"
  using overflow_bound_pos by (simp add: finite_result_def below_zero_def)

lemma js_sub_not_below: "\<not> js_lt a b \<Longrightarrow> \<not> below_zero (js_sub a b)"
proof (cases a; cases b)
  fix x y assume "a = Num x" "b = Num y" "\<not> js_lt a b"
  then show ?thesis using finite_result_not_below[of "x - y"] by simp
qed (auto simp: below_zero_def)

lemma js_div_not_below:
  "\<not> below_zero d \<Longrightarrow> js_lt (Num 0) u \<Longrightarrow> \<not> below_zero (js_div d u)"
proof (cases d; cases u)
  fix x y assume "d = Num x" "u = Num y" "\<not> below_zero d" "js_lt (Num 0) u"
  then show ?thesis using finite_result_not_below[of "x / y"] by (simp add: below_zero_def)
qed (auto simp: below_zero_def)

lemma js_add_not_below:
  "\<not> below_zero a \<Longrightarrow> \<not> js_le q (Num 0) \<Longrightarrow> \<not> below_zero (js_add a q)"
proof (cases a; cases q)
  fix x y assume "a = Num x" "q = Num y" "\<not> below_zero a" "\<not> js_le q (Num 0)"
  then show ?thesis using finite_result_not_below[of "x + y"] by (simp add: below_zero_def)
qed (auto simp: below_zero_def)

lemma quantity_not_below: "\<not> js_le q (Num 0) \<Longrightarrow> \<not> below_zero q"
  by (cases q) (auto simp: below_zero_def)

text \<open>
  The loop invariant: as long as \<open>canProduce\<close> holds, no deduction recorded so far writes
  a stock below zero.
\<close>

lemma check_ingredient_not_below:
  assumes items: "\<forall>it\<in>set its. js_lt (Num 0) (unit_value it)"
    and acc: "c \<longrightarrow> (\<forall>d\<in>set ds. \<not> below_zero (newStock d))"
    and res: "check_ingredient its q (c, ms, ds) ing = (c', ms', ds')"
  shows "c' \<longrightarrow> (\<forall>d\<in>set ds'. \<not> below_zero (newStock d))"
proof (cases "find_item its (ing_name ing) raw_material")
  case None
  with res show ?thesis by (simp add: check_ingredient_def)
next
  case found: (Some it)
  then have "it \<in> set its" by (simp add: find_item_Some)
  with items have uv: "js_lt (Num 0) (unit_value it)" by blast
  show ?thesis
  proof (cases "convertUnits (js_mul (ing_quantity ing) q) (ing_unit ing) (unit_type it)")
    case None
    with found res show ?thesis by (simp add: check_ingredient_def)
  next
    case (Some r)
    show ?thesis
    proof (cases "js_lt (js_mul (stock it) (unit_value it)) r")
      case True
      with found Some res show ?thesis
        by (simp add: check_ingredient_def Let_def)
    next
      case False
      from js_div_not_below[OF js_sub_not_below[OF False] uv] False acc found Some res
      show ?thesis
        by (auto simp add: check_ingredient_def Let_def)
    qed
  qed
qed

lemma foldl_check_not_below:
  assumes "\<forall>it\<in>set its. js_lt (Num 0) (unit_value it)"
  shows "c \<longrightarrow> (\<forall>d\<in>set ds. \<not> below_zero (newStock d)) \<Longrightarrow>
     foldl (check_ingredient its q) (c, ms, ds) ings = (c', ms', ds') \<Longrightarrow>
     c' \<longrightarrow> (\<forall>d\<in>set ds'. \<not> below_zero (newStock d))"
proof (induction ings arbitrary: c ms ds)
  case Nil
  then show ?case by simp
next
  case (Cons ing ings)
  obtain c1 ms1 ds1 where step: "check_ingredient its q (c, ms, ds) ing = (c1, ms1, ds1)"
    by (cases "check_ingredient its q (c, ms, ds) ing") auto
  from check_ingredient_not_below[OF assms Cons.prems(1) step]
  have inv1: "c1 \<longrightarrow> (\<forall>d\<in>set ds1. \<not> below_zero (newStock d))" .
  from Cons.prems(2) step
  have "foldl (check_ingredient its q) (c1, ms1, ds1) ings = (c', ms', ds')" by simp
  from Cons.IH[OF inv1 this] show ?case .
qed

lemma updateDoc_stock_not_below:
  "updateDoc_stock docs i v = Some docs' \<Longrightarrow> \<not> below_zero v \<Longrightarrow>
     \<forall>it\<in>set docs. \<not> below_zero (stock it) \<Longrightarrow> \<forall>it\<in>set docs'. \<not> below_zero (stock it)"
  by (auto simp: updateDoc_stock_def split: if_splits)

lemma apply_deductions_not_below:
  "apply_deductions docs ds = (docs', ok) \<Longrightarrow> \<forall>d\<in>set ds. \<not> below_zero (newStock d) \<Longrightarrow>
     \<forall>it\<in>set docs. \<not> below_zero (stock it) \<Longrightarrow> \<forall>it\<in>set docs'. \<not> below_zero (stock it)"
proof (induction ds arbitrary: docs)
  case Nil
  then show ?case by simp
next
  case (Cons d ds)
  show ?case
  proof (cases "updateDoc_stock docs (itemId d) (newStock d)")
    case None
    with Cons.prems show ?thesis by simp
  next
    case (Some docs1)
    with Cons.prems have "\<forall>it\<in>set docs1. \<not> below_zero (stock it)"
      using updateDoc_stock_not_below[OF Some] by simp
    moreover from Some Cons.prems have "apply_deductions docs1 ds = (docs', ok)" by simp
    ultimately show ?thesis using Cons.IH Cons.prems(2) by simp
  qed
qed

lemma commit_production_not_below:
  assumes "\<forall>d\<in>set ds. \<not> below_zero (newStock d)"
    and "\<forall>it\<in>set (inventory db). \<not> below_zero (stock it)"
    and "\<not> below_zero q" and "\<forall>fp. fpo = Some fp \<longrightarrow> \<not> below_zero (js_add (stock fp) q)"
  shows "\<forall>it\<in>set (inventory (snd (commit_production newId db ds fpo recipe q))).
           \<not> below_zero (stock it)"
proof -
  obtain docs ok where a: "apply_deductions (inventory db) ds = (docs, ok)"
    by (cases "apply_deductions (inventory db) ds") auto
  from apply_deductions_not_below[OF a assms(1,2)]
  have docs: "\<forall>it\<in>set docs. \<not> below_zero (stock it)" .
  show ?thesis
  proof (cases ok)
    case False
    with a docs show ?thesis by (simp add: commit_production_def)
  next
    case True
    show ?thesis
    proof (cases fpo)
      case None
      with a True docs assms(3) show ?thesis
        by (simp add: commit_production_def addDoc_item_def)
    next
      case fp: (Some fp)
      with assms(4) have v: "\<not> below_zero (js_add (stock fp) q)" by simp
      show ?thesis
      proof (cases "updateDoc_stock docs (item_id fp) (js_add (stock fp) q)")
        case None
        with a True docs fp show ?thesis by (simp add: commit_production_def)
      next
        case (Some docs')
        from updateDoc_stock_not_below[OF Some v docs] a True fp Some
        show ?thesis by (simp add: commit_production_def)
      qed
    qed
  qed
qed

lemma handleConfirmProduction_not_below:
  assumes db: "\<forall>it\<in>set (inventory db). \<not> below_zero (stock it)"
    and stocks: "\<forall>it\<in>set its. \<not> below_zero (stock it)"
    and units: "\<forall>it\<in>set its. js_lt (Num 0) (unit_value it)"
  shows "\<forall>it\<in>set (inventory (snd (handleConfirmProduction ready its confirm newId db recipe q))).
           \<not> below_zero (stock it)"
proof -
  obtain c ms ds where r: "check_ingredients its q (ingredients recipe) = (c, ms, ds)"
    by (cases "check_ingredients its q (ingredients recipe)") auto
  then have f: "foldl (check_ingredient its q) (True, [], []) (ingredients recipe) = (c, ms, ds)"
    by (simp add: check_ingredients_def)
  have ds: "c \<longrightarrow> (\<forall>d\<in>set ds. \<not> below_zero (newStock d))"
    using foldl_check_not_below[OF units _ f] by simp
  show ?thesis
  proof (cases "ready \<and> \<not> js_le q (Num 0) \<and> c \<and> confirm")
    case False
    with db r show ?thesis
      by (auto simp add: handleConfirmProduction_def Let_def)
  next
    case True
    have fp: "\<forall>fp. find_item its (recipe_name recipe) finished_good = Some fp \<longrightarrow>
                \<not> below_zero (js_add (stock fp) q)"
    proof (intro allI impI)
      fix fp assume "find_item its (recipe_name recipe) finished_good = Some fp"
      then have "fp \<in> set its" by (simp add: find_item_Some)
      with stocks have "\<not> below_zero (stock fp)" by blast
      with True show "\<not> below_zero (js_add (stock fp) q)"
        by (simp add: js_add_not_below)
    qed
    from True have "\<not> below_zero q" by (simp add: quantity_not_below)
    from commit_production_not_below[OF _ db this fp, of ds newId recipe] ds True r
    show ?thesis
      by (simp add: handleConfirmProduction_def Let_def)
  qed
qed

lemma handleChangeOrderStatus_not_below:
  assumes db: "\<forall>it\<in>set (inventory db). \<not> below_zero (stock it)"
  shows "\<forall>it\<in>set (inventory (snd (handleChangeOrderStatus ready recipes its confirm db orderId
            st rid pd q))). \<not> below_zero (stock it)"
proof (cases "find_item its (productNameForDeduction recipes rid pd) finished_good")
  case None
  with db show ?thesis
    by (simp add: handleChangeOrderStatus_def Let_def split: option.splits)
next
  case found: (Some fp)
  show ?thesis
  proof (cases "js_lt (stock fp) q")
    case True
    with found db show ?thesis
      by (simp add: handleChangeOrderStatus_def Let_def split: option.splits)
  next
    case False
    then have v: "\<not> below_zero (js_sub (stock fp) q)" by (rule js_sub_not_below)
    have "\<And>docs. updateDoc_stock (inventory db) (item_id fp) (js_sub (stock fp) q) = Some docs
            \<Longrightarrow> \<forall>it\<in>set docs. \<not> below_zero (stock it)"
      using updateDoc_stock_not_below[OF _ v db] by blast
    with found False db show ?thesis
      by (simp add: handleChangeOrderStatus_def Let_def split: option.splits)
  qed
qed

text \<open>
  C1, as the specification states it, fails: a commit can leave a stock that is not
  \<^verbatim>\<open>>= 0\<close>. The handlers test the order of two numbers and never that a number is finite.
  With \<^verbatim>\<open>1e308\<close> packs of 10 g of grain in stock and a recipe that takes \<^verbatim>\<open>1e308\<close> g, both
  accepted by the forms, a production of 10 computes \<^verbatim>\<open>1e308 * 10\<close> on either side of the
  stock test: both products are \<^verbatim>\<open>Infinity\<close>, \<^verbatim>\<open>Infinity < Infinity\<close> is false, and the stock
  written is \<^verbatim>\<open>(Infinity - Infinity) / 10\<close>, that is \<^verbatim>\<open>NaN\<close>. The commit succeeds, on a
  snapshot that is the ledger. Nor do the handlers test the sign of what they read: with a
  unit value of -10 and a recipe quantity of -20 g the stock 1 passes the stock test and
  the stock written is -1; and from a snapshot that shows -5 cakes a production of one
  cake writes -4 to a ledger that holds 10.
\<close>

theorem stock_not_a_number_counterexample:
  "list_all (\<lambda>it. nonneg (stock it)) (inventory granary) \<and>
   js_lt (Num 0) (unit_value silo) \<and>
   handleConfirmProduction True (inventory granary) True ''n1'' granary mash (Num 10) =
     (ProductionConfirmed, after_mash) \<and>
   stock (inventory after_mash ! 0) = NaN \<and>
   \<not> list_all (\<lambda>it. nonneg (stock it)) (inventory after_mash) \<and>
   list_all (\<lambda>it. nonneg (stock it)) (inventory till) \<and>
   handleConfirmProduction True (inventory till) True ''n1'' till refund (Num 1) =
     (ProductionConfirmed, after_refund) \<and>
   stock (inventory after_refund ! 0) = Num (- 1) \<and>
   below_zero (stock (inventory after_refund ! 0)) \<and>
   handleConfirmProduction True [flour, milk, cakes\<lparr>stock := Num (- 5)\<rparr>] True ''n1''
       store cake (Num 1) =
     (ProductionConfirmed,
      store\<lparr>inventory := [flour\<lparr>stock := Num (1 / 3)\<rparr>, milk\<lparr>stock := Num (3 / 2)\<rparr>,
                           cakes\<lparr>stock := Num (- 4)\<rparr>]\<rparr>)"
  by code_simp

text \<open>
  C1, amended: no commit drives a stock below zero. When the test \<^verbatim>\<open>stock < 0\<close> is false of
  every stock of the ledger and of every stock of the snapshot the handler reads, and
  every unit value of that snapshot is above zero, then \<^verbatim>\<open>stock < 0\<close> is false of every
  stock of the ledger after \<open>handleConfirmProduction\<close> and after \<open>handleChangeOrderStatus\<close>,
  whatever the recipe, the quantities and the outcome: a successful commit, an interrupted
  one, or none. The snapshot may be older than the ledger. A stock may be \<^verbatim>\<open>NaN\<close> or
  \<^verbatim>\<open>Infinity\<close> afterwards.
\<close>

theorem stock_not_driven_below_zero:
  assumes "\<forall>it\<in>set (inventory db). \<not> below_zero (stock it)"
    and "\<forall>it\<in>set inventoryItems. \<not> below_zero (stock it)"
    and "\<forall>it\<in>set inventoryItems. js_lt (Num 0) (unit_value it)"
  shows "(\<forall>it\<in>set (inventory (snd (handleConfirmProduction ready inventoryItems confirm newId
                db recipe quantityToProduce))). \<not> below_zero (stock it)) \<and>
         (\<forall>it\<in>set (inventory (snd (handleChangeOrderStatus ready recipes inventoryItems confirm
                db orderId currentStatus recipeRef description orderQuantity))).
             \<not> below_zero (stock it))"
proof (rule conjI)
  show "\<forall>it\<in>set (inventory (snd (handleConfirmProduction ready inventoryItems confirm newId
                db recipe quantityToProduce))). \<not> below_zero (stock it)"
    by (rule handleConfirmProduction_not_below[OF assms(1-3)])
  show "\<forall>it\<in>set (inventory (snd (handleChangeOrderStatus ready recipes inventoryItems confirm
                db orderId currentStatus recipeRef description orderQuantity))).
             \<not> below_zero (stock it)"
    by (rule handleChangeOrderStatus_not_below[OF assms(1)])
qed

theorem stock_not_driven_below_zero_witness:
  "list_all (\<lambda>it. \<not> below_zero (stock it)) (inventory store) \<and>
   list_all (\<lambda>it. js_lt (Num 0) (unit_value it)) (inventory store) \<and>
   handleConfirmProduction True (inventory store) True ''n1'' store cake (Num 1) =
     (ProductionConfirmed, after_cake) \<and>
   list_all (\<lambda>it. \<not> below_zero (stock it)) (inventory after_cake) \<and>
   handleChangeOrderStatus True [bread, cake] (inventory store) True store ''o1''
     Pendiente (Some ''r2'') [] (Num 5) = (StatusUpdated Completado, after_completion) \<and>
   list_all (\<lambda>it. \<not> below_zero (stock it)) (inventory after_completion)"
proof -
  have h1: "\<forall>it\<in>set (inventory store). \<not> below_zero (stock it)" by code_simp
  have h2: "\<forall>it\<in>set (inventory store). js_lt (Num 0) (unit_value it)" by code_simp
  have o1: "handleConfirmProduction True (inventory store) True ''n1'' store cake (Num 1) =
              (ProductionConfirmed, after_cake)"
    by code_simp
  have o2: "handleChangeOrderStatus True [bread, cake] (inventory store) True store ''o1''
          Pendiente (Some ''r2'') [] (Num 5) = (StatusUpdated Completado, after_completion)"
    by code_simp
  from stock_not_driven_below_zero[OF h1 h1 h2, where ready = True and confirm = True
        and newId = "''n1''" and recipe = cake and quantityToProduce = "Num 1"
        and recipes = "[bread, cake]" and orderId = "''o1''"
        and currentStatus = Pendiente and recipeRef = "Some ''r2''" and description = "[]"
        and orderQuantity = "Num 5"]
  show ?thesis using h1 h2 o1 o2 by (simp add: list_all_iff)
qed

section \<open>The writes of a commit\<close>

lemma updateDoc_stock_Some:
  "updateDoc_stock docs i v = Some docs' \<longleftrightarrow>
     i \<in> set (map item_id docs) \<and>
     docs' = map (\<lambda>d. if item_id d = i then d\<lparr>stock := v\<rparr> else d) docs"
  by (auto simp: updateDoc_stock_def)

lemma updateDoc_stock_ids:
  "updateDoc_stock docs i v = Some docs' \<Longrightarrow> map item_id docs' = map item_id docs"
  by (auto simp: updateDoc_stock_Some)



lemma write_effect_Cons:
  "write_effect (d # ds) docs =
     write_effect ds (map (\<lambda>x. if item_id x = itemId d then x\<lparr>stock := newStock d\<rparr> else x) docs)"
  by (auto simp: write_effect_def split: option.splits)

lemma apply_deductions_effect:
  "apply_deductions docs ds = (docs', True) \<Longrightarrow> docs' = write_effect ds docs"
proof (induction ds arbitrary: docs)
  case Nil
  then show ?case by (simp add: write_effect_def)
next
  case (Cons d ds)
  then obtain docs1 where u: "updateDoc_stock docs (itemId d) (newStock d) = Some docs1"
    and r: "apply_deductions docs1 ds = (docs', True)"
    by (auto split: option.splits)
  from Cons.IH[OF r] u show ?case
    by (simp add: write_effect_Cons updateDoc_stock_Some)
qed

lemma apply_deductions_ok:
  "snd (apply_deductions docs ds) \<longleftrightarrow> (\<forall>d\<in>set ds. itemId d \<in> set (map item_id docs))"
proof (induction ds arbitrary: docs)
  case Nil
  then show ?case by simp
next
  case (Cons d ds)
  show ?case
  proof (cases "updateDoc_stock docs (itemId d) (newStock d)")
    case None
    then show ?thesis by (auto simp: updateDoc_stock_def split: if_splits)
  next
    case (Some docs1)
    have ids: "map item_id docs1 = map item_id docs" by (rule updateDoc_stock_ids[OF Some])
    from Some have mem: "itemId d \<in> set (map item_id docs)"
      by (simp add: updateDoc_stock_Some)
    have "snd (apply_deductions docs (d # ds)) = snd (apply_deductions docs1 ds)"
      by (simp add: Some)
    also have "\<dots> \<longleftrightarrow> (\<forall>d\<in>set ds. itemId d \<in> set (map item_id docs))"
      unfolding Cons.IH[of docs1] ids ..
    finally show ?thesis using mem by simp
  qed
qed

lemma apply_deductions_eq:
  "apply_deductions docs ds =
     (if \<forall>d\<in>set ds. itemId d \<in> set (map item_id docs)
      then (write_effect ds docs, True)
      else (fst (apply_deductions docs ds), False))"
proof (cases "apply_deductions docs ds")
  case (Pair docs' ok)
  with apply_deductions_ok[of docs ds] apply_deductions_effect[of docs ds docs']
  show ?thesis by (cases ok) (simp_all del: set_map)
qed

lemma apply_deductions_append:
  "apply_deductions docs (ds @ [w]) =
     (case apply_deductions docs ds of
        (docs1, False) \<Rightarrow> (docs1, False)
      | (docs1, True) \<Rightarrow>
          (case updateDoc_stock docs1 (itemId w) (newStock w) of
             None \<Rightarrow> (docs1, False)
           | Some docs2 \<Rightarrow> (docs2, True)))"
  by (induction ds arbitrary: docs) (auto split: option.splits prod.splits bool.splits)



lemma same_but_stock_write_effect: "same_but_stock docs (write_effect ds docs)"
  by (auto simp: same_but_stock_def write_effect_def split: option.splits)

lemma last_write_append:
  "last_write (ds @ [w]) i = (if itemId w = i then Some (newStock w) else last_write ds i)"
  by (induction ds) (auto split: option.splits)

lemma commit_production_eq:
  "commit_production newId db ds fpo recipe q =
    (if \<forall>d\<in>set (production_writes ds fpo q). itemId d \<in> set (map item_id (inventory db))
     then (ProductionConfirmed,
           db\<lparr>inventory := write_effect (production_writes ds fpo q) (inventory db) @
                            new_documents newId fpo recipe q\<rparr>)
     else (WriteError,
           db\<lparr>inventory := fst (apply_deductions (inventory db) (production_writes ds fpo q))\<rparr>))"
proof (cases fpo)
  case None
  show ?thesis
    unfolding commit_production_def None production_writes_def new_documents_def
    by (subst apply_deductions_eq) (simp add: addDoc_item_def del: set_map)
next
  case (Some fp)
  define w where "w = \<lparr>itemId = item_id fp, newStock = js_add (stock fp) q\<rparr>"
  have pw: "production_writes ds fpo q = ds @ [w]"
    by (simp add: production_writes_def Some w_def)
  have c: "commit_production newId db ds fpo recipe q =
      (case apply_deductions (inventory db) (ds @ [w]) of
         (docs, True) \<Rightarrow> (ProductionConfirmed, db\<lparr>inventory := docs\<rparr>)
       | (docs, False) \<Rightarrow> (WriteError, db\<lparr>inventory := docs\<rparr>))"
    by (simp add: commit_production_def Some apply_deductions_append w_def
          split: prod.splits bool.splits option.splits)
  show ?thesis
    unfolding c pw
    by (subst apply_deductions_eq) (simp add: new_documents_def Some del: set_map)
qed


lemma handleConfirmProduction_eq:
  "handleConfirmProduction ready snap confirm newId db recipe q =
     (if \<not> ready then (NotReady, db)
      else if js_le q (Num 0) then (InvalidQuantity, db)
      else if spec_shortages convertUnits snap q (ingredients recipe) \<noteq> []
      then (Shortage (spec_shortages convertUnits snap q (ingredients recipe)), db)
      else if \<not> confirm then (Cancelled, db)
      else commit_production newId db (spec_entries convertUnits snap q (ingredients recipe))
             (find_item snap (recipe_name recipe) finished_good) recipe q)"
proof (cases ready)
  case False
  then show ?thesis by (simp add: handleConfirmProduction_def)
next
  case True
  show ?thesis
  proof (cases "js_le q (Num 0)")
    case le: True
    with True show ?thesis by (simp add: handleConfirmProduction_def)
  next
    case False
    with True handleConfirmProduction_plan[OF False, of snap confirm newId db recipe]
    show ?thesis by (simp add: spec_plan_def Let_def)
  qed
qed

lemma handleConfirmProduction_confirmed:
  "handleConfirmProduction ready snap confirm newId db recipe q = (ProductionConfirmed, db') \<longleftrightarrow>
     ready \<and> confirm \<and> \<not> js_le q (Num 0) \<and>
     spec_shortages convertUnits snap q (ingredients recipe) = [] \<and>
     (\<forall>d\<in>set (production_writes (spec_entries convertUnits snap q (ingredients recipe))
                (find_item snap (recipe_name recipe) finished_good) q).
         itemId d \<in> set (map item_id (inventory db))) \<and>
     db' = db\<lparr>inventory :=
               write_effect (production_writes (spec_entries convertUnits snap q (ingredients recipe))
                               (find_item snap (recipe_name recipe) finished_good) q)
                 (inventory db) @
               new_documents newId (find_item snap (recipe_name recipe) finished_good)
                 recipe q\<rparr>"
  unfolding handleConfirmProduction_eq commit_production_eq
  by (auto simp del: set_map)




section \<open>The finished good of a production\<close>

text \<open>
  C6, as the specification states it, fails in two points. The document that a production
  creates has the unit type \<^verbatim>\<open>unidad\<close>, not \<^verbatim>\<open>unit\<close>. And the stock of an existing
  finished good is written as its stock in the snapshot plus the quantity: on a snapshot
  that still shows ten cakes, while the store has eleven, the production of one cake
  leaves eleven.
\<close>

theorem finished_good_upsert_counterexample:
  "find_item (inventory store) (recipe_name bread) finished_good = None \<and>
   handleConfirmProduction True (inventory store) True ''n1'' store bread (Num 1) =
     (ProductionConfirmed, after_first_commit) \<and>
   unit_type (last (inventory after_first_commit)) = ''unidad'' \<and>
   unit_type (last (inventory after_first_commit)) \<noteq> ''unit'' \<and>
   find_item (inventory store) (recipe_name cake) finished_good = Some cakes \<and>
   stock cakes = Num 10 \<and>
   handleConfirmProduction True (inventory store) True ''n1'' after_cake cake (Num 1) =
     (ProductionConfirmed, after_cake)"
  by code_simp

text \<open>
  C6, amended: after a successful production planned on a snapshot that shows the store
  as it is, when no finished good has the name of the recipe (letter case apart), the
  inventory is the old documents, with other stocks at most, followed by one new finished
  good with unit value 1, unit type \<^verbatim>\<open>unidad\<close> and the produced quantity as stock; when one
  has, no document is added and that document has its stock increased by the produced
  quantity.
\<close>

theorem finished_good_upsert:
  assumes "handleConfirmProduction ready (inventory db) confirm newId db recipe q =
             (ProductionConfirmed, db')"
  shows "case find_item (inventory db) (recipe_name recipe) finished_good of
           None \<Rightarrow>
             \<exists>docs. same_but_stock (inventory db) docs \<and>
                    inventory db' = docs @
                      [\<lparr>item_id = newId, item_name = recipe_name recipe, unit_value = Num 1,
                        unit_type = ''unidad'', stock = q, item_type = finished_good\<rparr>]
         | Some fp \<Rightarrow>
             same_but_stock (inventory db) (inventory db') \<and>
             fp \<in> set (inventory db) \<and>
             fp\<lparr>stock := js_add (stock fp) q\<rparr> \<in> set (inventory db')"
proof (cases "find_item (inventory db) (recipe_name recipe) finished_good")
  case None
  with assms show ?thesis
    unfolding handleConfirmProduction_confirmed
    by (auto simp: new_documents_def same_but_stock_write_effect)
next
  case (Some fp)
  define W where "W = production_writes
      (spec_entries convertUnits (inventory db) q (ingredients recipe))
                        (Some fp) q"
  from assms Some have inv': "inventory db' = write_effect W (inventory db)"
    unfolding handleConfirmProduction_confirmed W_def by (simp add: new_documents_def)
  from Some have mem: "fp \<in> set (inventory db)" using find_item_Some by blast
  have "last_write W (item_id fp) = Some (js_add (stock fp) q)"
    by (simp add: W_def production_writes_def last_write_append)
  then have "fp\<lparr>stock := js_add (stock fp) q\<rparr> \<in>
      (\<lambda>d. case last_write W (item_id d) of Some v \<Rightarrow> d\<lparr>stock := v\<rparr> | None \<Rightarrow> d) ` set (inventory db)"
    using mem by (force simp: image_iff)
  then have "fp\<lparr>stock := js_add (stock fp) q\<rparr> \<in> set (inventory db')"
    by (simp add: inv' write_effect_def)
  with Some mem inv' show ?thesis by (simp add: same_but_stock_write_effect)
qed

theorem finished_good_upsert_witness:
  "handleConfirmProduction True (inventory store) True ''n1'' store bread (Num 1) =
     (ProductionConfirmed, after_first_commit) \<and>
   find_item (inventory store) (recipe_name bread) finished_good = None \<and>
   (\<exists>docs. same_but_stock (inventory store) docs \<and>
           inventory after_first_commit = docs @
             [\<lparr>item_id = ''n1'', item_name = recipe_name bread, unit_value = Num 1,
               unit_type = ''unidad'', stock = Num 1, item_type = finished_good\<rparr>]) \<and>
   handleConfirmProduction True (inventory store) True ''n1'' store cake (Num 1) =
     (ProductionConfirmed, after_cake) \<and>
   find_item (inventory store) (recipe_name cake) finished_good = Some cakes \<and>
   cakes\<lparr>stock := js_add (stock cakes) (Num 1)\<rparr> \<in> set (inventory after_cake)"
proof -
  have h1: "handleConfirmProduction True (inventory store) True ''n1'' store bread (Num 1) =
     (ProductionConfirmed, after_first_commit)"
    by code_simp
  have f1: "find_item (inventory store) (recipe_name bread) finished_good = None"
    by code_simp
  have h2: "handleConfirmProduction True (inventory store) True ''n1'' store cake (Num 1) =
     (ProductionConfirmed, after_cake)"
    by code_simp
  have f2: "find_item (inventory store) (recipe_name cake) finished_good = Some cakes"
    by code_simp
  from finished_good_upsert[OF h1] finished_good_upsert[OF h2] h1 f1 h2 f2
  show ?thesis by simp
qed

section \<open>Sales orders\<close>


lemma updateDoc_status_eq:
  "updateDoc_status docs i v =
     (if i \<in> set (map order_id docs)
      then Some (map (\<lambda>d. if order_id d = i then d\<lparr>status := v\<rparr> else d) docs)
      else None)"
  by (simp add: updateDoc_status_def)

text \<open>
  C7, as the specification states it, fails in its last part: the two writes are two
  awaited \<^verbatim>\<open>updateDoc\<close> calls, not one atomic commit. When the order document has been
  deleted since the component read it, the five cakes are deducted and no status is
  written. And the stock written is the stock of the snapshot minus the quantity: on a
  snapshot that still shows ten cakes, while the store has eleven, completing the order of
  five leaves five.
\<close>

theorem completion_not_atomic_counterexample:
  "handleChangeOrderStatus True [bread, cake] (inventory store) True
       (store\<lparr>sales_orders := []\<rparr>) ''o1'' Pendiente (Some ''r2'') [] (Num 5) =
     (WriteError,
      store\<lparr>inventory := [flour, milk, cakes\<lparr>stock := Num 5\<rparr>], sales_orders := []\<rparr>) \<and>
   handleChangeOrderStatus True [bread, cake] (inventory store) True after_cake ''o1''
       Pendiente (Some ''r2'') [] (Num 5) =
     (StatusUpdated Completado,
      after_cake\<lparr>inventory := [flour\<lparr>stock := Num (1 / 3)\<rparr>, milk\<lparr>stock := Num (3 / 2)\<rparr>,
                               cakes\<lparr>stock := Num 5\<rparr>],
                 sales_orders := [order1\<lparr>status := Completado\<rparr>]\<rparr>)"
  by code_simp

text \<open>
  C7, amended: completing a pending order takes the name of the recipe that
  \<open>selectedRecipeId\<close> finds, else the description, and looks for a finished good of that
  name, letter case apart. None: the not-found message, no change. A stock below the
  quantity: the insufficient-stock message, no change. Otherwise, once the user confirms,
  the stock of that document is written as its snapshot stock minus the quantity, and
  then the status \<open>Completado\<close> is written. The two writes are made one after the other:
  if the first fails nothing is changed, if the second fails the deduction stays.
\<close>

theorem complete_order:
  assumes name: "name = productNameForDeduction recipes recipeRef description"
    and result: "result = handleChangeOrderStatus True recipes snap confirm db orderId Pendiente
                   recipeRef description q"
  shows "(\<forall>rid r. recipeRef = Some rid \<and> rid \<noteq> [] \<and>
                  find (\<lambda>x. recipe_id x = rid) recipes = Some r \<longrightarrow> name = recipe_name r) \<and>
         (recipeRef = None \<longrightarrow> name = description) \<and>
         (find_item snap name finished_good = None \<longrightarrow> result = (ProductNotFound name, db)) \<and>
         (\<forall>fp. find_item snap name finished_good = Some fp \<longrightarrow>
            (js_lt (stock fp) q \<longrightarrow>
               result = (InsufficientFinishedGood name (stock fp) q, db)) \<and>
            (\<not> js_lt (stock fp) q \<and> \<not> confirm \<longrightarrow> result = (Cancelled, db)) \<and>
            (\<not> js_lt (stock fp) q \<and> confirm \<longrightarrow>
               result =
                 (if item_id fp \<notin> set (map item_id (inventory db)) then (WriteError, db)
                  else if orderId \<notin> set (map order_id (sales_orders db))
                  then (WriteError,
                        db\<lparr>inventory :=
                             map (\<lambda>d. if item_id d = item_id fp
                                      then d\<lparr>stock := js_sub (stock fp) q\<rparr> else d)
                               (inventory db)\<rparr>)
                  else (StatusUpdated Completado,
                        db\<lparr>inventory :=
                             map (\<lambda>d. if item_id d = item_id fp
                                      then d\<lparr>stock := js_sub (stock fp) q\<rparr> else d)
                               (inventory db),
                           sales_orders :=
                             map (\<lambda>ord. if order_id ord = orderId
                                      then ord\<lparr>status := Completado\<rparr> else ord)
                               (sales_orders db)\<rparr>))))"
proof (intro conjI allI impI)
  fix rid r
  assume "recipeRef = Some rid \<and> rid \<noteq> [] \<and> find (\<lambda>x. recipe_id x = rid) recipes = Some r"
  then show "name = recipe_name r" by (simp add: name productNameForDeduction_def)
next
  assume "recipeRef = None"
  then show "name = description" by (simp add: name productNameForDeduction_def)
next
  assume "find_item snap name finished_good = None"
  then show "result = (ProductNotFound name, db)"
    by (simp add: result handleChangeOrderStatus_def Let_def name)
next
  fix fp
  assume f: "find_item snap name finished_good = Some fp"
  {
    assume "js_lt (stock fp) q"
    with f show "result = (InsufficientFinishedGood name (stock fp) q, db)"
      by (simp add: result handleChangeOrderStatus_def Let_def name)
  next
    assume "\<not> js_lt (stock fp) q \<and> \<not> confirm"
    with f show "result = (Cancelled, db)"
      by (simp add: result handleChangeOrderStatus_def Let_def name)
  next
    assume "\<not> js_lt (stock fp) q \<and> confirm"
    with f show "result =
                 (if item_id fp \<notin> set (map item_id (inventory db)) then (WriteError, db)
                  else if orderId \<notin> set (map order_id (sales_orders db))
                  then (WriteError,
                        db\<lparr>inventory :=
                             map (\<lambda>d. if item_id d = item_id fp
                                      then d\<lparr>stock := js_sub (stock fp) q\<rparr> else d)
                               (inventory db)\<rparr>)
                  else (StatusUpdated Completado,
                        db\<lparr>inventory :=
                             map (\<lambda>d. if item_id d = item_id fp
                                      then d\<lparr>stock := js_sub (stock fp) q\<rparr> else d)
                               (inventory db),
                           sales_orders :=
                             map (\<lambda>ord. if order_id ord = orderId
                                      then ord\<lparr>status := Completado\<rparr> else ord)
                               (sales_orders db)\<rparr>))"
      by (simp add: result handleChangeOrderStatus_def Let_def name updateDoc_stock_def
            updateDoc_status_def del: set_map)
  }
qed

theorem complete_order_witness:
  "productNameForDeduction [bread, cake] (Some ''r2'') [] = ''cake'' \<and>
   find_item (inventory store) ''cake'' finished_good = Some cakes \<and>
   \<not> js_lt (stock cakes) (Num 5) \<and>
   handleChangeOrderStatus True [bread, cake] (inventory store) True store ''o1''
       Pendiente (Some ''r2'') [] (Num 5) =
     (StatusUpdated Completado, after_completion)"
proof -
  have n: "productNameForDeduction [bread, cake] (Some ''r2'') [] = ''cake''" by code_simp
  have f: "find_item (inventory store) ''cake'' finished_good = Some cakes" by code_simp
  have l: "\<not> js_lt (stock cakes) (Num 5)" by code_simp
  have i1: "item_id cakes \<in> set (map item_id (inventory store))" by code_simp
  have i2: "''o1'' \<in> set (map order_id (sales_orders store))" by code_simp
  have m: "store\<lparr>inventory :=
               map (\<lambda>d. if item_id d = item_id cakes
                        then d\<lparr>stock := js_sub (stock cakes) (Num 5)\<rparr> else d)
                 (inventory store),
             sales_orders :=
               map (\<lambda>ord. if order_id ord = ''o1'' then ord\<lparr>status := Completado\<rparr> else ord)
                 (sales_orders store)\<rparr> = after_completion"
    by code_simp
  note T = complete_order[OF n[symmetric] refl, where snap = "inventory store"
      and confirm = True and db = store and orderId = "''o1''" and q = "Num 5"]
  from T f l have "handleChangeOrderStatus True [bread, cake] (inventory store) True store ''o1''
       Pendiente (Some ''r2'') [] (Num 5) =
     (if item_id cakes \<notin> set (map item_id (inventory store)) then (WriteError, store)
      else if ''o1'' \<notin> set (map order_id (sales_orders store))
      then (WriteError,
            store\<lparr>inventory :=
                 map (\<lambda>d. if item_id d = item_id cakes
                          then d\<lparr>stock := js_sub (stock cakes) (Num 5)\<rparr> else d)
                   (inventory store)\<rparr>)
      else (StatusUpdated Completado,
            store\<lparr>inventory :=
                 map (\<lambda>d. if item_id d = item_id cakes
                          then d\<lparr>stock := js_sub (stock cakes) (Num 5)\<rparr> else d)
                   (inventory store),
               sales_orders :=
                 map (\<lambda>ord. if order_id ord = ''o1'' then ord\<lparr>status := Completado\<rparr> else ord)
                   (sales_orders store)\<rparr>))"
    by blast
  with i1 i2 m n f l show ?thesis by (simp del: set_map)
qed

lemma set_status_others:
  "ord \<in> set os \<Longrightarrow> order_id ord \<noteq> i \<Longrightarrow>
     ord \<in> set (map (\<lambda>x. if order_id x = i then x\<lparr>status := v\<rparr> else x) os)"
  by (induction os) auto

lemma set_status_this:
  assumes "ord \<in> set (map (\<lambda>x. if order_id x = i then x\<lparr>status := v\<rparr> else x) os)"
    and "order_id ord = i"
  shows "status ord = v"
proof -
  from assms(1) obtain x where x: "x \<in> set os"
    and ord: "ord = (if order_id x = i then x\<lparr>status := v\<rparr> else x)"
    by (auto simp: image_iff)
  show ?thesis
  proof (cases "order_id x = i")
    case True
    with ord show ?thesis by simp
  next
    case False
    with ord assms(2) show ?thesis by simp
  qed
qed

lemma same_but_status_set:
  "same_but_status os (map (\<lambda>x. if order_id x = i then x\<lparr>status := v\<rparr> else x) os)"
  by (induction os) (auto simp: same_but_status_def)

lemma reopen_eq:
  "handleChangeOrderStatus ready recipes snap confirm db orderId Completado
             recipeRef description q =
      (if \<not> ready then (NotReady, db)
       else if \<not> confirm then (Cancelled, db)
       else if orderId \<in> set (map order_id (sales_orders db))
       then (StatusUpdated Pendiente,
             db\<lparr>sales_orders := map (\<lambda>x. if order_id x = orderId
                                          then x\<lparr>status := Pendiente\<rparr> else x)
                                    (sales_orders db)\<rparr>)
       else (WriteError, db))"
  by (simp add: handleChangeOrderStatus_def Let_def updateDoc_status_def del: set_map)

text \<open>
  C8: reopening a completed order changes nothing but the status of that order. The
  inventory is what it was, so the deducted finished good is not restored; every other
  order is what it was; the order itself differs in its status at most, which is
  \<open>Pendiente\<close> after a successful reopening; and the reopening succeeds once the user
  confirms and the order document exists.
\<close>

theorem reopen_sets_status_only:
  assumes "handleChangeOrderStatus ready recipes snap confirm db orderId Completado
             recipeRef description q = (out, db')"
  shows "inventory db' = inventory db \<and>
         same_but_status (sales_orders db) (sales_orders db') \<and>
         (\<forall>ord\<in>set (sales_orders db). order_id ord \<noteq> orderId \<longrightarrow> ord \<in> set (sales_orders db')) \<and>
         (out = StatusUpdated Pendiente \<longrightarrow>
            (\<forall>ord\<in>set (sales_orders db'). order_id ord = orderId \<longrightarrow> status ord = Pendiente)) \<and>
         (ready \<and> confirm \<and> orderId \<in> set (map order_id (sales_orders db)) \<longrightarrow>
            out = StatusUpdated Pendiente)"
proof (cases "ready \<and> confirm \<and> orderId \<in> set (map order_id (sales_orders db))")
  case True
  with assms[unfolded reopen_eq] have out: "out = StatusUpdated Pendiente"
    and db': "db' = db\<lparr>sales_orders := map (\<lambda>x. if order_id x = orderId
                                          then x\<lparr>status := Pendiente\<rparr> else x)
                                    (sales_orders db)\<rparr>"
    by simp_all
  have so: "sales_orders db' = map (\<lambda>x. if order_id x = orderId
                                          then x\<lparr>status := Pendiente\<rparr> else x)
                                    (sales_orders db)"
    and inv: "inventory db' = inventory db"
    by (simp_all add: db')
  show ?thesis
    unfolding so inv
    using out set_status_others set_status_this same_but_status_set by blast
next
  case False
  with assms[unfolded reopen_eq] have "db' = db" and "out \<noteq> StatusUpdated Pendiente"
    by (auto split: if_splits)
  moreover have "same_but_status (sales_orders db) (sales_orders db)"
    by (simp add: same_but_status_def)
  ultimately show ?thesis using False by blast
qed


theorem reopen_sets_status_only_witness:
  "handleChangeOrderStatus True [bread, cake] (inventory store) True store ''o1''
       Pendiente (Some ''r2'') [] (Num 5) = (StatusUpdated Completado, after_completion) \<and>
   handleChangeOrderStatus True [bread, cake] (inventory after_completion) True
       after_completion ''o1'' Completado (Some ''r2'') [] (Num 5) =
     (StatusUpdated Pendiente, after_completion\<lparr>sales_orders := [order1]\<rparr>) \<and>
   inventory (after_completion\<lparr>sales_orders := [order1]\<rparr>) = inventory after_completion \<and>
   same_but_status (sales_orders after_completion)
     (sales_orders (after_completion\<lparr>sales_orders := [order1]\<rparr>)) \<and>
   find_item (inventory after_completion) ''cake'' finished_good =
     Some (cakes\<lparr>stock := Num 5\<rparr>)"
proof -
  have c: "handleChangeOrderStatus True [bread, cake] (inventory store) True store ''o1''
       Pendiente (Some ''r2'') [] (Num 5) = (StatusUpdated Completado, after_completion)"
    by code_simp
  have h: "handleChangeOrderStatus True [bread, cake] (inventory after_completion) True
       after_completion ''o1'' Completado (Some ''r2'') [] (Num 5) =
     (StatusUpdated Pendiente, after_completion\<lparr>sales_orders := [order1]\<rparr>)"
    by code_simp
  have s: "find_item (inventory after_completion) ''cake'' finished_good =
     Some (cakes\<lparr>stock := Num 5\<rparr>)"
    by code_simp
  from reopen_sets_status_only[OF h] c h s show ?thesis by blast
qed

end
